theory Spec2Isabelle
  imports Complex_Main "HOL-Library.AList" "HOL-Library.Multiset"
begin

section \<open>Domain model (order\_service/internal/domain)\<close>

text \<open>
  \<^verbatim>\<open>type OrderStatus string\<close> with the three constants of the domain package. The Go type
  is a string, so a status outside the three constants is a value of the type;
  \<open>IsValidStatus\<close> is the switch of the source.
\<close>

type_synonym OrderStatus = string

definition StatusPending :: OrderStatus where
  "StatusPending = ''pending''"

definition StatusCompleted :: OrderStatus where
  "StatusCompleted = ''completed''"

definition StatusCancelled :: OrderStatus where
  "StatusCancelled = ''cancelled''"

definition IsValidStatus :: "OrderStatus \<Rightarrow> bool" where
  "IsValidStatus status =
     (if status = StatusPending \<or> status = StatusCompleted \<or> status = StatusCancelled
      then True else False)"

text \<open>
  Go's \<open>int\<close> has 64 bits on the platforms of the service. A value of the type is
  modelled as an \<open>int\<close>, and where \<open>CreateOrder\<close> adds up the quantities of a request
  and subtracts the sum from a stock, the wrap of the 64-bit arithmetic is written out:
  \<open>wrap64\<close> is the two's-complement value of a sum or difference of two Go \<open>int\<close>s.
  The restock of a cancellation adds a quantity the order store returns (an \<open>INT\<close>
  column, 32 bits) to a stock the inventory returns (an \<open>int32\<close> of the proto): that
  sum stays within 64 bits and is written without the wrap. A price is a \<open>float64\<close>
  that the use case only copies and compares with zero; it is modelled as \<open>real\<close>.
  Timestamps are seconds.
\<close>

definition wrap64 :: "int \<Rightarrow> int" where
  "wrap64 x = (x + 2 ^ 63) mod 2 ^ 64 - 2 ^ 63"

record OrderItem =
  ProductID :: int
  Quantity :: int
  Price :: real

record Order =
  ID :: int
  UserID :: int
  Items :: "OrderItem list"
  Status :: OrderStatus
  CreatedAt :: int
  UpdatedAt :: int

section \<open>The inventory client and the order repository (interfaces)\<close>

text \<open>
  \<open>clients.Product\<close>. Its fields \<open>ID\<close>, \<open>Name\<close> and \<open>Price\<close> carry the prefix
  \<open>Prod\<close> here, because \<open>Order\<close> and \<open>OrderItem\<close> have fields of the same names.
\<close>

record Product =
  ProdID :: int
  ProdName :: string
  ProdPrice :: real
  Stock :: int

text \<open>
  The use case is written against the two Go interfaces \<open>clients.InventoryClient\<close> and
  \<open>domain.OrderRepository\<close>, so the model takes an implementation of each as a record of
  functions over a state of its own (\<open>'i\<close> the inventory, \<open>'r\<close> the order store), with
  \<open>'e\<close> the errors they return. A Go result \<open>(*T, error)\<close> is a sum, \<open>Inl\<close> the
  error. \<open>postgresOrderRepository.CreateOrder\<close> ends with
  \<^verbatim>\<open>if err == nil && tx.Commit() != nil { return nil, err }\<close>, which returns
  \<open>(nil, nil)\<close> when the commit fails; the result of \<open>repoCreateOrder\<close> therefore has the
  third value \<open>Inr None\<close>.
\<close>

record ('i, 'e) InventoryClient =
  GetProduct :: "int \<Rightarrow> 'i \<Rightarrow> ('e + Product) \<times> 'i"
  UpdateStock :: "int \<Rightarrow> int \<Rightarrow> 'i \<Rightarrow> 'e option \<times> 'i"

record ('r, 'e) OrderRepository =
  repoCreateOrder :: "Order \<Rightarrow> 'r \<Rightarrow> ('e + Order option) \<times> 'r"
  repoGetOrderByID :: "int \<Rightarrow> 'r \<Rightarrow> ('e + Order) \<times> 'r"
  repoUpdateOrderStatus :: "int \<Rightarrow> OrderStatus \<Rightarrow> 'r \<Rightarrow> ('e + Order) \<times> 'r"
  repoListOrdersByUserID :: "int \<Rightarrow> int \<Rightarrow> int \<Rightarrow> 'r \<Rightarrow> ('e + Order list) \<times> 'r"

record ('i, 'r, 'e) orderUseCase =
  orderRepo :: "('r, 'e) OrderRepository"
  inventoryClient :: "('i, 'e) InventoryClient"

text \<open>
  The errors of the use case, one constructor for each \<open>errors.New\<close> and \<open>fmt.Errorf\<close>
  of \<open>usecase/order_usecase\<close>, with the values the message is formatted from.
  \<open>RepositoryError\<close> is an error of the repository that the use case returns as it is;
  \<open>NilPointerPanic\<close> is the run-time panic of a nil dereference.
\<close>

datatype 'e ucError =
    InvalidUserID
  | NoItems
  | InvalidProductID nat
  | QuantityNotPositive nat int
  | NegativePrice nat int
  | StatusNotPending
  | InventoryCheckFailed int 'e
  | InsufficientStock int int int
  | ReserveStockFailed int 'e
  | SaveOrderFailed 'e
  | InvalidOrderID
  | InvalidTargetStatus OrderStatus
  | CannotCancelCompleted
  | CannotChangeCancelled
  | RepositoryError 'e
  | ListOrdersFailed int 'e
  | NilPointerPanic

text \<open>
  The \<open>uc.log.Errorf\<close> lines of the use case. The \<open>Infof\<close> and \<open>Warnf\<close> lines are left
  out: they change neither a result nor a call.
\<close>

datatype 'e logEntry =
    DecreaseStockFailed int 'e
  | RollbackFailed int 'e
  | SaveOrderFailedAfterInventoryUpdate int 'e
  | RollbackFailedAfterDBError int 'e
  | ReturnStockLookupFailed int int 'e
  | ReturnStockFailed int int int 'e
  | UpdateStatusFailed int 'e
  | CancelStatusNotSavedAfterReturn int
  | ListOrdersRepositoryFailed int 'e

text \<open>
  What a run of the use case does to the outside: each call through one of the two
  interfaces, with its arguments and its result, and each error-level log line, in the
  order they happen.
\<close>

datatype 'e event =
    CallGetProduct int "'e + Product"
  | CallUpdateStock int int "'e option"
  | CallRepoCreateOrder Order "'e + Order option"
  | CallRepoGetOrderByID int "'e + Order"
  | CallRepoUpdateOrderStatus int OrderStatus "'e + Order"
  | CallRepoListOrdersByUserID int int int "'e + Order list"
  | LogError "'e logEntry"

record ('i, 'r, 'e) world =
  inventory :: 'i
  store :: 'r
  trace :: "'e event list"

definition callGetProduct ::
  "('i, 'e) InventoryClient \<Rightarrow> int \<Rightarrow> ('i, 'r, 'e) world \<Rightarrow> ('e + Product) \<times> ('i, 'r, 'e) world" where
  "callGetProduct c productID w =
     (case GetProduct c productID (inventory w) of
        (res, i) \<Rightarrow> (res, w\<lparr>inventory := i, trace := trace w @ [CallGetProduct productID res]\<rparr>))"

definition callUpdateStock ::
  "('i, 'e) InventoryClient \<Rightarrow> int \<Rightarrow> int \<Rightarrow> ('i, 'r, 'e) world \<Rightarrow> 'e option \<times> ('i, 'r, 'e) world" where
  "callUpdateStock c productID newStock w =
     (case UpdateStock c productID newStock (inventory w) of
        (res, i) \<Rightarrow> (res, w\<lparr>inventory := i, trace := trace w @ [CallUpdateStock productID newStock res]\<rparr>))"

definition callRepoCreateOrder ::
  "('r, 'e) OrderRepository \<Rightarrow> Order \<Rightarrow> ('i, 'r, 'e) world \<Rightarrow> ('e + Order option) \<times> ('i, 'r, 'e) world" where
  "callRepoCreateOrder r order w =
     (case repoCreateOrder r order (store w) of
        (res, s) \<Rightarrow> (res, w\<lparr>store := s, trace := trace w @ [CallRepoCreateOrder order res]\<rparr>))"

definition callRepoGetOrderByID ::
  "('r, 'e) OrderRepository \<Rightarrow> int \<Rightarrow> ('i, 'r, 'e) world \<Rightarrow> ('e + Order) \<times> ('i, 'r, 'e) world" where
  "callRepoGetOrderByID r orderID w =
     (case repoGetOrderByID r orderID (store w) of
        (res, s) \<Rightarrow> (res, w\<lparr>store := s, trace := trace w @ [CallRepoGetOrderByID orderID res]\<rparr>))"

definition callRepoUpdateOrderStatus ::
  "('r, 'e) OrderRepository \<Rightarrow> int \<Rightarrow> OrderStatus \<Rightarrow> ('i, 'r, 'e) world \<Rightarrow> ('e + Order) \<times> ('i, 'r, 'e) world" where
  "callRepoUpdateOrderStatus r orderID status w =
     (case repoUpdateOrderStatus r orderID status (store w) of
        (res, s) \<Rightarrow>
          (res, w\<lparr>store := s, trace := trace w @ [CallRepoUpdateOrderStatus orderID status res]\<rparr>))"

definition callRepoListOrdersByUserID ::
  "('r, 'e) OrderRepository \<Rightarrow> int \<Rightarrow> int \<Rightarrow> int \<Rightarrow> ('i, 'r, 'e) world \<Rightarrow> ('e + Order list) \<times> ('i, 'r, 'e) world" where
  "callRepoListOrdersByUserID r userID limit offset w =
     (case repoListOrdersByUserID r userID limit offset (store w) of
        (res, s) \<Rightarrow>
          (res, w\<lparr>store := s, trace := trace w @ [CallRepoListOrdersByUserID userID limit offset res]\<rparr>))"

definition logError :: "'e logEntry \<Rightarrow> ('i, 'r, 'e) world \<Rightarrow> ('i, 'r, 'e) world" where
  "logError entry w = w\<lparr>trace := trace w @ [LogError entry]\<rparr>"

section \<open>orderUseCase.CreateOrder\<close>

record productCheckInfo =
  Product :: Product
  OrderQuantity :: int

text \<open>
  The two Go maps of \<open>CreateOrder\<close>, \<open>productsInfo\<close> and \<open>successfullyDecreased\<close>, are
  association lists with distinct keys. A \<open>range\<close> over a Go map visits the entries in an
  order the run time chooses, so the model takes that choice as a parameter: a function
  for each of the two maps that returns the entries in the order of the visit.
\<close>

record rangeOrder =
  productsInfoOrder :: "(int \<times> productCheckInfo) list \<Rightarrow> (int \<times> productCheckInfo) list"
  successfullyDecreasedOrder :: "(int \<times> int) list \<Rightarrow> (int \<times> int) list"

definition validRangeOrder :: "rangeOrder \<Rightarrow> bool" where
  "validRangeOrder go =
     ((\<forall>m. mset (productsInfoOrder go m) = mset m) \<and>
      (\<forall>m. mset (successfullyDecreasedOrder go m) = mset m))"

text \<open>The loop over the items that opens \<open>CreateOrder\<close>; \<open>i\<close> is the index of the item.\<close>

fun validateItems :: "nat \<Rightarrow> OrderItem list \<Rightarrow> 'e ucError option" where
  "validateItems i [] = None"
| "validateItems i (item # items) =
     (if ProductID item \<le> 0 then Some (InvalidProductID i)
      else if Quantity item \<le> 0 then Some (QuantityNotPositive i (ProductID item))
      else if Price item < 0 then Some (NegativePrice i (ProductID item))
      else validateItems (Suc i) items)"

text \<open>
  The validation block of \<open>CreateOrder\<close>, up to the first log line: the error it returns,
  or the order with its empty status replaced by \<open>StatusPending\<close>.
\<close>

definition validateOrder :: "Order \<Rightarrow> 'e ucError + Order" where
  "validateOrder order =
     (if UserID order \<le> 0 then Inl InvalidUserID
      else if length (Items order) = 0 then Inl NoItems
      else case validateItems 0 (Items order) of
        Some e \<Rightarrow> Inl e
      | None \<Rightarrow>
          (let order1 = (if Status order = [] then order\<lparr>Status := StatusPending\<rparr> else order)
           in if Status order1 \<noteq> StatusPending then Inl StatusNotPending else Inr order1))"

text \<open>
  The first loop: one \<open>GetProduct\<close> for each item, the price of the item overwritten by
  the price read, the quantity added to what the order already asks of that product, and
  the sum (a 64-bit sum, which wraps) compared with the stock just read. It returns
  \<open>productsInfo\<close> and the items with their prices. The \<open>Product\<close> kept for a product is
  the one of its first item.
\<close>

fun checkInventory ::
  "('i, 'e) InventoryClient \<Rightarrow> OrderItem list \<Rightarrow> (int \<times> productCheckInfo) list \<Rightarrow>
   ('i, 'r, 'e) world \<Rightarrow>
   ('e ucError + (int \<times> productCheckInfo) list \<times> OrderItem list) \<times> ('i, 'r, 'e) world" where
  "checkInventory c [] productsInfo w = (Inr (productsInfo, []), w)"
| "checkInventory c (item # items) productsInfo w =
     (case callGetProduct c (ProductID item) w of
        (Inl err, w1) \<Rightarrow> (Inl (InventoryCheckFailed (ProductID item) err), w1)
      | (Inr product, w1) \<Rightarrow>
          (let currentRequested =
                 (case map_of productsInfo (ProductID item) of
                    Some existing \<Rightarrow> wrap64 (Quantity item + OrderQuantity existing)
                  | None \<Rightarrow> Quantity item)
           in if Stock product < currentRequested
              then (Inl (InsufficientStock (ProductID item) currentRequested (Stock product)), w1)
              else
                (let productsInfo1 =
                       (case map_of productsInfo (ProductID item) of
                          Some existing \<Rightarrow>
                            AList.update (ProductID item)
                              (existing\<lparr>OrderQuantity :=
                                          wrap64 (OrderQuantity existing + Quantity item)\<rparr>)
                              productsInfo
                        | None \<Rightarrow>
                            AList.update (ProductID item)
                              \<lparr>Product = product, OrderQuantity = Quantity item\<rparr> productsInfo)
                 in case checkInventory c items productsInfo1 w1 of
                      (Inl e, w2) \<Rightarrow> (Inl e, w2)
                    | (Inr (info, priced), w2) \<Rightarrow>
                        (Inr (info, item\<lparr>Price := ProdPrice product\<rparr> # priced), w2))))"

text \<open>
  The second loop, over \<open>productsInfo\<close> in the order of the visit: \<open>UpdateStock\<close> with the
  stock kept minus the quantity asked. At the first failure it stops and returns the
  product, the error and the products decreased so far.
\<close>

fun reserveStock ::
  "('i, 'e) InventoryClient \<Rightarrow> (int \<times> productCheckInfo) list \<Rightarrow> (int \<times> int) list \<Rightarrow>
   ('i, 'r, 'e) world \<Rightarrow>
   ((int \<times> 'e \<times> (int \<times> int) list) + (int \<times> int) list) \<times> ('i, 'r, 'e) world" where
  "reserveStock c [] successfullyDecreased w = (Inr successfullyDecreased, w)"
| "reserveStock c ((productID, info) # rest) successfullyDecreased w =
     (let newStock = wrap64 (Stock (Product info) - OrderQuantity info)
      in case callUpdateStock c productID newStock w of
           (Some err, w1) \<Rightarrow>
             (Inl (productID, err, successfullyDecreased),
              logError (DecreaseStockFailed productID err) w1)
         | (None, w1) \<Rightarrow>
             reserveStock c rest
               (AList.update productID (OrderQuantity info) successfullyDecreased) w1)"

text \<open>
  The rollback loop, written twice in the source (after a failed \<open>UpdateStock\<close> and after
  a failed save) with two log messages; \<open>entry\<close> is the log line of the copy. A key of
  \<open>successfullyDecreased\<close> missing from \<open>productsInfo\<close> would read the zero value, whose
  \<open>Product\<close> is nil.
\<close>

fun rollbackStock ::
  "('i, 'e) InventoryClient \<Rightarrow> (int \<Rightarrow> 'e \<Rightarrow> 'e logEntry) \<Rightarrow> (int \<times> productCheckInfo) list \<Rightarrow>
   (int \<times> int) list \<Rightarrow> ('i, 'r, 'e) world \<Rightarrow> 'e ucError option \<times> ('i, 'r, 'e) world" where
  "rollbackStock c entry productsInfo [] w = (None, w)"
| "rollbackStock c entry productsInfo ((idToRollback, quantityDecreased) # rest) w =
     (case map_of productsInfo idToRollback of
        None \<Rightarrow> (Some NilPointerPanic, w)
      | Some currentInfoToRollback \<Rightarrow>
          (let rollbackStockValue = Stock (Product currentInfoToRollback)
           in case callUpdateStock c idToRollback rollbackStockValue w of
                (Some rollbackErr, w1) \<Rightarrow>
                  rollbackStock c entry productsInfo rest
                    (logError (entry idToRollback rollbackErr) w1)
              | (None, w1) \<Rightarrow> rollbackStock c entry productsInfo rest w1))"

definition CreateOrder ::
  "('i, 'r, 'e) orderUseCase \<Rightarrow> rangeOrder \<Rightarrow> Order \<Rightarrow> ('i, 'r, 'e) world \<Rightarrow>
   ('e ucError + Order) \<times> ('i, 'r, 'e) world" where
  "CreateOrder uc go order0 w =
     (case validateOrder order0 of
        Inl e \<Rightarrow> (Inl e, w)
      | Inr order \<Rightarrow>
          (case checkInventory (inventoryClient uc) (Items order) [] w of
             (Inl e, w1) \<Rightarrow> (Inl e, w1)
           | (Inr (productsInfo, priced), w1) \<Rightarrow>
               (case reserveStock (inventoryClient uc) (productsInfoOrder go productsInfo) [] w1 of
                  (Inl (productID, err, successfullyDecreased), w2) \<Rightarrow>
                    (case rollbackStock (inventoryClient uc) RollbackFailed productsInfo
                            (successfullyDecreasedOrder go successfullyDecreased) w2 of
                       (Some panic, w3) \<Rightarrow> (Inl panic, w3)
                     | (None, w3) \<Rightarrow> (Inl (ReserveStockFailed productID err), w3))
                | (Inr successfullyDecreased, w2) \<Rightarrow>
                    (case callRepoCreateOrder (orderRepo uc) (order\<lparr>Items := priced\<rparr>) w2 of
                       (Inl err, w3) \<Rightarrow>
                         (case rollbackStock (inventoryClient uc) RollbackFailedAfterDBError
                                 productsInfo
                                 (successfullyDecreasedOrder go successfullyDecreased)
                                 (logError
                                    (SaveOrderFailedAfterInventoryUpdate (UserID order) err) w3) of
                            (Some panic, w4) \<Rightarrow> (Inl panic, w4)
                          | (None, w4) \<Rightarrow> (Inl (SaveOrderFailed err), w4))
                     | (Inr None, w3) \<Rightarrow> (Inl NilPointerPanic, w3)
                     | (Inr (Some createdOrder), w3) \<Rightarrow> (Inr createdOrder, w3)))))"

section \<open>orderUseCase.UpdateOrderStatus and orderUseCase.ListOrdersByUserID\<close>

text \<open>
  The loop of a cancellation: for each item of the order a \<open>GetProduct\<close>, then
  \<open>UpdateStock\<close> with the stock just read plus the quantity of the item. A failed read
  skips the item (\<open>continue\<close>); a failed write is logged; the loop goes on in both cases.
\<close>

fun returnStock ::
  "('i, 'e) InventoryClient \<Rightarrow> int \<Rightarrow> OrderItem list \<Rightarrow> ('i, 'r, 'e) world \<Rightarrow> ('i, 'r, 'e) world" where
  "returnStock c orderID [] w = w"
| "returnStock c orderID (item # items) w =
     (case callGetProduct c (ProductID item) w of
        (Inl err, w1) \<Rightarrow>
          returnStock c orderID items
            (logError (ReturnStockLookupFailed (ProductID item) orderID err) w1)
      | (Inr product, w1) \<Rightarrow>
          (let newStock = Stock product + Quantity item
           in case callUpdateStock c (ProductID item) newStock w1 of
                (Some err, w2) \<Rightarrow>
                  returnStock c orderID items
                    (logError (ReturnStockFailed (ProductID item) (Quantity item) orderID err) w2)
              | (None, w2) \<Rightarrow> returnStock c orderID items w2))"

definition UpdateOrderStatus ::
  "('i, 'r, 'e) orderUseCase \<Rightarrow> int \<Rightarrow> OrderStatus \<Rightarrow> ('i, 'r, 'e) world \<Rightarrow>
   ('e ucError + Order) \<times> ('i, 'r, 'e) world" where
  "UpdateOrderStatus uc orderID status w =
     (if orderID \<le> 0 then (Inl InvalidOrderID, w)
      else if \<not> IsValidStatus status then (Inl (InvalidTargetStatus status), w)
      else case callRepoGetOrderByID (orderRepo uc) orderID w of
        (Inl err, w1) \<Rightarrow> (Inl (RepositoryError err), w1)
      | (Inr currentOrder, w1) \<Rightarrow>
          if Status currentOrder = StatusCompleted \<and> status = StatusCancelled
          then (Inl CannotCancelCompleted, w1)
          else if Status currentOrder = StatusCancelled \<and> status \<noteq> StatusCancelled
          then (Inl CannotChangeCancelled, w1)
          else
            (let isCancelling = (status = StatusCancelled \<and> Status currentOrder \<noteq> StatusCancelled);
                 w2 = (if isCancelling
                       then returnStock (inventoryClient uc) orderID (Items currentOrder) w1
                       else w1)
             in case callRepoUpdateOrderStatus (orderRepo uc) orderID status w2 of
                  (Inl err, w3) \<Rightarrow>
                    (Inl (RepositoryError err),
                     (if isCancelling
                      then logError (CancelStatusNotSavedAfterReturn orderID)
                             (logError (UpdateStatusFailed orderID err) w3)
                      else logError (UpdateStatusFailed orderID err) w3))
                | (Inr updatedOrder, w3) \<Rightarrow> (Inr updatedOrder, w3)))"

definition ListOrdersByUserID ::
  "('i, 'r, 'e) orderUseCase \<Rightarrow> int \<Rightarrow> int \<Rightarrow> int \<Rightarrow> ('i, 'r, 'e) world \<Rightarrow>
   ('e ucError + Order list) \<times> ('i, 'r, 'e) world" where
  "ListOrdersByUserID uc userID limit offset w =
     (if userID \<le> 0 then (Inl InvalidUserID, w)
      else case callRepoListOrdersByUserID (orderRepo uc) userID limit offset w of
        (Inl err, w1) \<Rightarrow>
          (Inl (ListOrdersFailed userID err), logError (ListOrdersRepositoryFailed userID err) w1)
      | (Inr orders, w1) \<Rightarrow> (Inr orders, w1))"

section \<open>postgresOrderRepository.ListOrdersByUserID\<close>

text \<open>
  The two tables of the migration, \<open>orders\<close> and \<open>order_items\<close> (a row of
  \<open>order_items\<close> is the \<open>order_id\<close> and the item), and \<open>faults\<close>, what the database
  answers to the next round trips of the driver: an error, or nothing (an empty list is a
  database that answers every call).
\<close>

record 'x database =
  ordersTable :: "Order list"
  orderItemsTable :: "(int \<times> OrderItem) list"
  faults :: "'x option list"

definition nextFault :: "'x database \<Rightarrow> 'x option \<times> 'x database" where
  "nextFault d = (case faults d of [] \<Rightarrow> (None, d) | f # fs \<Rightarrow> (f, d\<lparr>faults := fs\<rparr>))"

text \<open>The \<open>rows.Next\<close>/\<open>rows.Scan\<close> loop: the first scan that fails ends it.\<close>

fun scanRows :: "'a list \<Rightarrow> 'x database \<Rightarrow> 'x option \<times> 'x database" where
  "scanRows [] d = (None, d)"
| "scanRows (row # rows) d =
     (case nextFault d of
        (Some e, d1) \<Rightarrow> (Some e, d1)
      | (None, d1) \<Rightarrow> scanRows rows d1)"

text \<open>
  \<^verbatim>\<open>SELECT id, user_id, status, created_at, updated_at FROM orders WHERE user_id = $1
  ORDER BY created_at DESC LIMIT $2 OFFSET $3\<close>; rows of equal \<open>created_at\<close> come out
  newest insertion first. The scan leaves \<open>Items\<close> nil.
\<close>

definition ordersQuery :: "'x database \<Rightarrow> int \<Rightarrow> int \<Rightarrow> int \<Rightarrow> Order list" where
  "ordersQuery d userID limit offset =
     map (\<lambda>row. row\<lparr>Items := []\<rparr>)
       (take (nat limit) (drop (nat offset)
          (rev (sort_key CreatedAt (filter (\<lambda>row. UserID row = userID) (ordersTable d))))))"

text \<open>
  \<^verbatim>\<open>SELECT order_id, product_id, quantity, price FROM order_items
  WHERE order_id = ANY($1::int[]) ORDER BY order_id\<close>
\<close>

definition itemsQuery :: "'x database \<Rightarrow> int list \<Rightarrow> (int \<times> OrderItem) list" where
  "itemsQuery d orderIDs =
     sort_key fst (filter (\<lambda>row. fst row \<in> set orderIDs) (orderItemsTable d))"

datatype 'x repoError =
    CouldNotRetrieveOrders 'x
  | ErrorScanningOrderData 'x
  | ErrorIteratingOrders 'x
  | CouldNotRetrieveOrderItemsForList 'x
  | ErrorScanningOrderItemDataForList 'x
  | ErrorIteratingOrderItemsForList 'x

definition pgListOrdersByUserID ::
  "int \<Rightarrow> int \<Rightarrow> int \<Rightarrow> 'x database \<Rightarrow> ('x repoError + Order list) \<times> 'x database" where
  "pgListOrdersByUserID userID limit0 offset0 d =
     (let limit = (if limit0 \<le> 0 \<or> limit0 > 100 then 10 else limit0);
          offset = (if offset0 < 0 then 0 else offset0)
      in case nextFault d of
           (Some err, d1) \<Rightarrow> (Inl (CouldNotRetrieveOrders err), d1)
         | (None, d1) \<Rightarrow>
             (let orders = ordersQuery d1 userID limit offset
              in case scanRows orders d1 of
                   (Some err, d2) \<Rightarrow> (Inl (ErrorScanningOrderData err), d2)
                 | (None, d2) \<Rightarrow>
                     (case nextFault d2 of
                        (Some err, d3) \<Rightarrow> (Inl (ErrorIteratingOrders err), d3)
                      | (None, d3) \<Rightarrow>
                          if length orders = 0 then (Inr [], d3)
                          else
                            (case nextFault d3 of
                               (Some err, d4) \<Rightarrow> (Inl (CouldNotRetrieveOrderItemsForList err), d4)
                             | (None, d4) \<Rightarrow>
                                 (let itemRows = itemsQuery d4 (map ID orders)
                                  in case scanRows itemRows d4 of
                                       (Some err, d5) \<Rightarrow>
                                         (Inl (ErrorScanningOrderItemDataForList err), d5)
                                     | (None, d5) \<Rightarrow>
                                         (case nextFault d5 of
                                            (Some err, d6) \<Rightarrow>
                                              (Inl (ErrorIteratingOrderItemsForList err), d6)
                                          | (None, d6) \<Rightarrow>
                                              (Inr (map (\<lambda>order. order\<lparr>Items :=
                                                      map snd (filter (\<lambda>row. fst row = ID order)
                                                        itemRows)\<rparr>) orders),
                                               d6)))))))"

section \<open>The two handlers of ListOrders\<close>

text \<open>
  The gRPC handler (\<open>delivery/grpc\<close>): \<open>ListOrdersRequest\<close> has \<open>user_id\<close> (int64),
  \<open>limit\<close> and \<open>offset\<close> (int32; a field left out of the message reads 0). The status
  that \<open>mapOrderDomainErrorToGrpcStatus\<close> derives from the text of an error is not
  modelled: \<open>DomainError\<close> carries the error itself.
\<close>

record ListOrdersRequest =
  reqUserId :: int
  reqLimit :: int
  reqOffset :: int

datatype 'e grpcError =
    InvalidArgumentInvalidUserID
  | DomainError "'e ucError"

definition grpcListOrders ::
  "('i, 'r, 'e) orderUseCase \<Rightarrow> ListOrdersRequest \<Rightarrow> ('i, 'r, 'e) world \<Rightarrow>
   ('e grpcError + Order list) \<times> ('i, 'r, 'e) world" where
  "grpcListOrders uc req w =
     (let userID = reqUserId req; limit = reqLimit req; offset = reqOffset req
      in if userID \<le> 0 then (Inl InvalidArgumentInvalidUserID, w)
         else case ListOrdersByUserID uc userID limit offset w of
           (Inl err, w1) \<Rightarrow> (Inl (DomainError err), w1)
         | (Inr orders, w1) \<Rightarrow> (Inr orders, w1))"

text \<open>
  The HTTP handler (\<open>delivery\<close>, gin): the header \<open>X-User-ID\<close> and the query parameters
  \<open>limit\<close> and \<open>offset\<close>, each absent or a text. \<open>Atoi\<close> is \<open>strconv.Atoi\<close> on a
  64-bit platform: an optional sign, then one or more decimal digits, and an error out of
  the range of \<open>int\<close>.
\<close>

definition digitValue :: "char \<Rightarrow> nat option" where
  "digitValue c =
     (if c = CHR ''0'' then Some 0 else if c = CHR ''1'' then Some 1
      else if c = CHR ''2'' then Some 2 else if c = CHR ''3'' then Some 3
      else if c = CHR ''4'' then Some 4 else if c = CHR ''5'' then Some 5
      else if c = CHR ''6'' then Some 6 else if c = CHR ''7'' then Some 7
      else if c = CHR ''8'' then Some 8 else if c = CHR ''9'' then Some 9
      else None)"

fun parseDigits :: "nat \<Rightarrow> string \<Rightarrow> nat option" where
  "parseDigits n [] = Some n"
| "parseDigits n (c # cs) =
     (case digitValue c of None \<Rightarrow> None | Some v \<Rightarrow> parseDigits (10 * n + v) cs)"

definition Atoi :: "string \<Rightarrow> int option" where
  "Atoi s =
     (let negative = (s \<noteq> [] \<and> hd s = CHR ''-'');
          body = (if s \<noteq> [] \<and> (hd s = CHR ''-'' \<or> hd s = CHR ''+'') then tl s else s)
      in if body = [] then None
         else case parseDigits 0 body of
           None \<Rightarrow> None
         | Some n \<Rightarrow>
             (let v = (if negative then - int n else int n)
              in if - (2 ^ 63) \<le> v \<and> v < 2 ^ 63 then Some v else None))"

definition DefaultQuery :: "string option \<Rightarrow> string \<Rightarrow> string" where
  "DefaultQuery param defaultValue = (case param of None \<Rightarrow> defaultValue | Some v \<Rightarrow> v)"

record httpListRequest =
  headerXUserID :: string
  queryLimit :: "string option"
  queryOffset :: "string option"

datatype httpResponse =
    Unauthorized
  | InternalServerError
  | OK "Order list"

definition httpListOrders ::
  "('i, 'r, 'e) orderUseCase \<Rightarrow> httpListRequest \<Rightarrow> ('i, 'r, 'e) world \<Rightarrow>
   httpResponse \<times> ('i, 'r, 'e) world" where
  "httpListOrders uc req w =
     (if headerXUserID req = [] then (Unauthorized, w)
      else case Atoi (headerXUserID req) of
        None \<Rightarrow> (InternalServerError, w)
      | Some userID \<Rightarrow>
          if userID \<le> 0 then (InternalServerError, w)
          else
            (let limitStr = DefaultQuery (queryLimit req) ''10'';
                 offsetStr = DefaultQuery (queryOffset req) ''0'';
                 limit1 = (case Atoi limitStr of
                             None \<Rightarrow> 10
                           | Some l \<Rightarrow> if l < 0 then 10 else l);
                 limit = (if limit1 > 100 then 100 else limit1);
                 offset = (case Atoi offsetStr of
                             None \<Rightarrow> 0
                           | Some off \<Rightarrow> if off < 0 then 0 else off)
             in case ListOrdersByUserID uc userID limit offset w of
                  (Inl err, w1) \<Rightarrow> (InternalServerError, w1)
                | (Inr orders, w1) \<Rightarrow> (OK orders, w1)))"

section \<open>In-memory implementations of the two interfaces\<close>

text \<open>
  The implementations the concrete runs below are made with: an inventory and an order
  store held in memory, each with a list of faults (the answer of the service to its next
  calls: an error, or nothing). \<open>memUpdateStock\<close> refuses a negative stock before it
  calls the service, as \<open>inventoryGRPCClient.UpdateStock\<close> does.
\<close>

record memInventory =
  products :: "(int \<times> Product) list"
  readFaults :: "string option list"
  writeFaults :: "string option list"

definition memGetProduct :: "int \<Rightarrow> memInventory \<Rightarrow> (string + Product) \<times> memInventory" where
  "memGetProduct productID s =
     (case readFaults s of
        Some err # rest \<Rightarrow> (Inl err, s\<lparr>readFaults := rest\<rparr>)
      | _ \<Rightarrow>
          (case map_of (products s) productID of
             None \<Rightarrow> (Inl ''not found'', s\<lparr>readFaults := tl (readFaults s)\<rparr>)
           | Some product \<Rightarrow> (Inr product, s\<lparr>readFaults := tl (readFaults s)\<rparr>)))"

definition memUpdateStock :: "int \<Rightarrow> int \<Rightarrow> memInventory \<Rightarrow> string option \<times> memInventory" where
  "memUpdateStock productID newStock s =
     (if newStock < 0 then (Some ''stock cannot be negative'', s)
      else case writeFaults s of
        Some err # rest \<Rightarrow> (Some err, s\<lparr>writeFaults := rest\<rparr>)
      | _ \<Rightarrow>
          (case map_of (products s) productID of
             None \<Rightarrow> (Some ''not found'', s\<lparr>writeFaults := tl (writeFaults s)\<rparr>)
           | Some product \<Rightarrow>
               (None, s\<lparr>products := AList.update productID (product\<lparr>Stock := newStock\<rparr>) (products s),
                         writeFaults := tl (writeFaults s)\<rparr>)))"

definition memInventoryClient :: "(memInventory, string) InventoryClient" where
  "memInventoryClient = \<lparr>GetProduct = memGetProduct, UpdateStock = memUpdateStock\<rparr>"

record memStore =
  savedOrders :: "Order list"
  nextOrderID :: int
  storeFaults :: "string option list"

definition memCreateOrder :: "Order \<Rightarrow> memStore \<Rightarrow> (string + Order option) \<times> memStore" where
  "memCreateOrder order s =
     (case storeFaults s of
        Some err # rest \<Rightarrow> (Inl err, s\<lparr>storeFaults := rest\<rparr>)
      | _ \<Rightarrow>
          (let created = order\<lparr>ID := nextOrderID s\<rparr>
           in (Inr (Some created),
               s\<lparr>savedOrders := savedOrders s @ [created], nextOrderID := nextOrderID s + 1,
                  storeFaults := tl (storeFaults s)\<rparr>)))"

definition memGetOrderByID :: "int \<Rightarrow> memStore \<Rightarrow> (string + Order) \<times> memStore" where
  "memGetOrderByID orderID s =
     (case storeFaults s of
        Some err # rest \<Rightarrow> (Inl err, s\<lparr>storeFaults := rest\<rparr>)
      | _ \<Rightarrow>
          (case find (\<lambda>order. ID order = orderID) (savedOrders s) of
             None \<Rightarrow> (Inl ''not found'', s\<lparr>storeFaults := tl (storeFaults s)\<rparr>)
           | Some order \<Rightarrow> (Inr order, s\<lparr>storeFaults := tl (storeFaults s)\<rparr>)))"

definition memUpdateOrderStatus ::
  "int \<Rightarrow> OrderStatus \<Rightarrow> memStore \<Rightarrow> (string + Order) \<times> memStore" where
  "memUpdateOrderStatus orderID status s =
     (case storeFaults s of
        Some err # rest \<Rightarrow> (Inl err, s\<lparr>storeFaults := rest\<rparr>)
      | _ \<Rightarrow>
          (case find (\<lambda>order. ID order = orderID) (savedOrders s) of
             None \<Rightarrow> (Inl ''not found'', s\<lparr>storeFaults := tl (storeFaults s)\<rparr>)
           | Some order \<Rightarrow>
               (Inr (order\<lparr>Status := status\<rparr>),
                s\<lparr>savedOrders :=
                     map (\<lambda>saved. if ID saved = orderID then saved\<lparr>Status := status\<rparr> else saved)
                       (savedOrders s),
                   storeFaults := tl (storeFaults s)\<rparr>)))"

definition memListOrdersByUserID ::
  "int \<Rightarrow> int \<Rightarrow> int \<Rightarrow> memStore \<Rightarrow> (string + Order list) \<times> memStore" where
  "memListOrdersByUserID userID limit offset s =
     (case storeFaults s of
        Some err # rest \<Rightarrow> (Inl err, s\<lparr>storeFaults := rest\<rparr>)
      | _ \<Rightarrow>
          (Inr (take (nat limit) (drop (nat offset)
                  (filter (\<lambda>order. UserID order = userID) (savedOrders s)))),
           s\<lparr>storeFaults := tl (storeFaults s)\<rparr>))"

definition memOrderRepository :: "(memStore, string) OrderRepository" where
  "memOrderRepository =
     \<lparr>repoCreateOrder = memCreateOrder, repoGetOrderByID = memGetOrderByID,
      repoUpdateOrderStatus = memUpdateOrderStatus,
      repoListOrdersByUserID = memListOrdersByUserID\<rparr>"

definition memUseCase :: "(memInventory, memStore, string) orderUseCase" where
  "memUseCase = \<lparr>orderRepo = memOrderRepository, inventoryClient = memInventoryClient\<rparr>"

definition insertionOrder :: rangeOrder where
  "insertionOrder = \<lparr>productsInfoOrder = (\<lambda>m. m), successfullyDecreasedOrder = (\<lambda>m. m)\<rparr>"

definition reverseOrder :: rangeOrder where
  "reverseOrder = \<lparr>productsInfoOrder = rev, successfullyDecreasedOrder = rev\<rparr>"

section \<open>The notions of the specification\<close>

text \<open>
  The quantity an order asks of a product: the sum over the line items of that product.
\<close>

definition aggregateQuantity :: "OrderItem list \<Rightarrow> int \<Rightarrow> int" where
  "aggregateQuantity items p =
     sum_list (map Quantity (filter (\<lambda>item. ProductID item = p) items))"

text \<open>
  The kinds of error of the specification, read off the place in the use case that
  returns the error: the validation blocks, the stock comparison, the two transition
  guards.
\<close>

fun ValidationError :: "'e ucError \<Rightarrow> bool" where
  "ValidationError InvalidUserID = True"
| "ValidationError NoItems = True"
| "ValidationError (InvalidProductID i) = True"
| "ValidationError (QuantityNotPositive i p) = True"
| "ValidationError (NegativePrice i p) = True"
| "ValidationError StatusNotPending = True"
| "ValidationError InvalidOrderID = True"
| "ValidationError (InvalidTargetStatus s) = True"
| "ValidationError _ = False"

fun InsufficientStockError :: "'e ucError \<Rightarrow> bool" where
  "InsufficientStockError (InsufficientStock p requested available) = True"
| "InsufficientStockError _ = False"

fun InvalidTransitionError :: "'e ucError \<Rightarrow> bool" where
  "InvalidTransitionError CannotCancelCompleted = True"
| "InvalidTransitionError CannotChangeCancelled = True"
| "InvalidTransitionError _ = False"

fun isGetProduct :: "'e event \<Rightarrow> bool" where
  "isGetProduct (CallGetProduct p res) = True"
| "isGetProduct _ = False"

fun isUpdateStock :: "'e event \<Rightarrow> bool" where
  "isUpdateStock (CallUpdateStock p n res) = True"
| "isUpdateStock _ = False"

fun isInventoryCall :: "'e event \<Rightarrow> bool" where
  "isInventoryCall (CallGetProduct p res) = True"
| "isInventoryCall (CallUpdateStock p n res) = True"
| "isInventoryCall _ = False"

text \<open>The products of the \<open>UpdateStock\<close> calls of a trace that succeeded, in order.\<close>

fun succeededUpdates :: "'e event list \<Rightarrow> int list" where
  "succeededUpdates [] = []"
| "succeededUpdates (CallUpdateStock p n None # evs) = p # succeededUpdates evs"
| "succeededUpdates (ev # evs) = succeededUpdates evs"

text \<open>
  The calls of a check phase in which every read succeeds, and the items with the prices
  read: \<open>products\<close> is what \<open>GetProduct\<close> returned, item by item.
\<close>

definition readEvents :: "OrderItem list \<Rightarrow> Product list \<Rightarrow> 'e event list" where
  "readEvents items ps =
     map (\<lambda>(item, product). CallGetProduct (ProductID item) (Inr product)) (zip items ps)"

definition stampPrices :: "OrderItem list \<Rightarrow> Product list \<Rightarrow> OrderItem list" where
  "stampPrices items ps =
     map (\<lambda>(item, product). item\<lparr>Price := ProdPrice product\<rparr>) (zip items ps)"

text \<open>
  The stock kept for a product at the check, and the trace of a compensation: for each
  product to restore, in the order given, one \<open>UpdateStock\<close> with the stock kept at the
  check and, when the call fails, the log line of the failure.
\<close>

definition stockAtCheck :: "(int \<times> productCheckInfo) list \<Rightarrow> int \<Rightarrow> int option" where
  "stockAtCheck productsInfo p = map_option (\<lambda>info. Stock (Product info)) (map_of productsInfo p)"

fun compensationTrace ::
  "(int \<Rightarrow> 'e \<Rightarrow> 'e logEntry) \<Rightarrow> (int \<Rightarrow> int option) \<Rightarrow> int list \<Rightarrow> 'e option list \<Rightarrow>
   'e event list option" where
  "compensationTrace entry stockOf [] [] = Some []"
| "compensationTrace entry stockOf (p # ps) (res # results) =
     (case (stockOf p, compensationTrace entry stockOf ps results) of
        (Some stock, Some evs) \<Rightarrow>
          Some (CallUpdateStock p stock res #
                (case res of Some err \<Rightarrow> [LogError (entry p err)] | None \<Rightarrow> []) @ evs)
      | _ \<Rightarrow> None)"
| "compensationTrace entry stockOf _ _ = None"

text \<open>
  The compensation applied to an inventory: for each product to restore, in the order
  given, the \<open>UpdateStock\<close> of the client with the stock kept at the check, each call on
  the inventory the call before left. It returns what the calls returned and the
  inventory after the last one.
\<close>

fun applyCompensation ::
  "('i, 'e) InventoryClient \<Rightarrow> (int \<Rightarrow> int option) \<Rightarrow> int list \<Rightarrow> 'i \<Rightarrow> 'e option list \<times> 'i" where
  "applyCompensation c stockOf [] s = ([], s)"
| "applyCompensation c stockOf (p # ps) s =
     (case stockOf p of
        None \<Rightarrow> ([], s)
      | Some stock \<Rightarrow>
          (case UpdateStock c p stock s of
             (res, s1) \<Rightarrow>
               (case applyCompensation c stockOf ps s1 of
                  (results, s2) \<Rightarrow> (res # results, s2))))"


text \<open>
  The contract of \<open>UpdateOrderStatus\<close> of the order store: the order it returns carries
  the status it was asked to write.
\<close>

definition returnsStatusWritten :: "('r, 'e) OrderRepository \<Rightarrow> bool" where
  "returnsStatusWritten r =
     (\<forall>orderID status s updated s1.
        repoUpdateOrderStatus r orderID status s = (Inr updated, s1) \<longrightarrow> Status updated = status)"

section \<open>Concrete inputs\<close>

text \<open>
  The scenario of the specification: product 1 with stock 5 and price 10, and a second
  product 2 with stock 8 and price 3; an empty order store; an order of user 7.
\<close>

definition inventory0 :: memInventory where
  "inventory0 =
     \<lparr>products = [(1, \<lparr>ProdID = 1, ProdName = ''P'', ProdPrice = 10, Stock = 5\<rparr>),
                  (2, \<lparr>ProdID = 2, ProdName = ''Q'', ProdPrice = 3, Stock = 8\<rparr>)],
      readFaults = [], writeFaults = []\<rparr>"

definition store0 :: memStore where
  "store0 = \<lparr>savedOrders = [], nextOrderID = 1, storeFaults = []\<rparr>"

definition world0 :: "(memInventory, memStore, string) world" where
  "world0 = \<lparr>inventory = inventory0, store = store0, trace = []\<rparr>"

definition line :: "int \<Rightarrow> int \<Rightarrow> OrderItem" where
  "line p q = \<lparr>ProductID = p, Quantity = q, Price = 0\<rparr>"

definition orderOf :: "OrderItem list \<Rightarrow> Order" where
  "orderOf items =
     \<lparr>ID = 0, UserID = 7, Items = items, Status = [], CreatedAt = 0, UpdatedAt = 0\<rparr>"

text \<open>
  An order with two lines for product 1 and one for product 2; a world in which the second
  and the third \<open>UpdateStock\<close> fail; a world in which the order store refuses the next
  call.
\<close>

definition order3 :: Order where
  "order3 = orderOf [line 1 2, line 2 3, line 1 1]"

definition worldWriteFaults :: "(memInventory, memStore, string) world" where
  "worldWriteFaults =
     world0\<lparr>inventory := inventory0\<lparr>writeFaults := [None, Some ''unavailable'', Some ''timeout'']\<rparr>\<rparr>"

definition worldStoreDown :: "(memInventory, memStore, string) world" where
  "worldStoreDown = world0\<lparr>store := store0\<lparr>storeFaults := [Some ''db down'']\<rparr>\<rparr>"

text \<open>
  A world in which the second \<open>UpdateStock\<close> fails and the later ones succeed; an order
  whose two lines for product 1 add up to one more than the largest Go \<open>int\<close>; and an
  order store whose transaction does not commit: \<open>postgresOrderRepository.CreateOrder\<close>
  then runs \<^verbatim>\<open>return nil, err\<close> with \<open>err == nil\<close>, returns \<open>(nil, nil)\<close> and has
  saved nothing.
\<close>

definition worldSecondWriteFails :: "(memInventory, memStore, string) world" where
  "worldSecondWriteFails =
     world0\<lparr>inventory := inventory0\<lparr>writeFaults := [None, Some ''unavailable'']\<rparr>\<rparr>"

definition orderOverflow :: Order where
  "orderOverflow = orderOf [line 1 1, line 1 9223372036854775807]"

definition commitFailingUseCase :: "(memInventory, memStore, string) orderUseCase" where
  "commitFailingUseCase =
     \<lparr>orderRepo =
        \<lparr>repoCreateOrder = (\<lambda>order s. (Inr None, s)), repoGetOrderByID = memGetOrderByID,
         repoUpdateOrderStatus = memUpdateOrderStatus,
         repoListOrdersByUserID = memListOrdersByUserID\<rparr>,
      inventoryClient = memInventoryClient\<rparr>"

text \<open>What \<open>order3\<close> becomes once created in \<open>world0\<close>, and the world after that.\<close>

definition created3 :: Order where
  "created3 =
     \<lparr>ID = 1, UserID = 7,
      Items = [\<lparr>ProductID = 1, Quantity = 2, Price = 10\<rparr>,
               \<lparr>ProductID = 2, Quantity = 3, Price = 3\<rparr>,
               \<lparr>ProductID = 1, Quantity = 1, Price = 10\<rparr>],
      Status = ''pending'', CreatedAt = 0, UpdatedAt = 0\<rparr>"

definition world3 :: "(memInventory, memStore, string) world" where
  "world3 =
     \<lparr>inventory =
        \<lparr>products = [(1, \<lparr>ProdID = 1, ProdName = ''P'', ProdPrice = 10, Stock = 2\<rparr>),
                     (2, \<lparr>ProdID = 2, ProdName = ''Q'', ProdPrice = 3, Stock = 5\<rparr>)],
         readFaults = [], writeFaults = []\<rparr>,
      store = \<lparr>savedOrders = [created3], nextOrderID = 2, storeFaults = []\<rparr>,
      trace =
        [CallGetProduct 1 (Inr \<lparr>ProdID = 1, ProdName = ''P'', ProdPrice = 10, Stock = 5\<rparr>),
         CallGetProduct 2 (Inr \<lparr>ProdID = 2, ProdName = ''Q'', ProdPrice = 3, Stock = 8\<rparr>),
         CallGetProduct 1 (Inr \<lparr>ProdID = 1, ProdName = ''P'', ProdPrice = 10, Stock = 5\<rparr>),
         CallUpdateStock 1 2 None,
         CallUpdateStock 2 5 None,
         CallRepoCreateOrder (created3\<lparr>ID := 0\<rparr>) (Inr (Some created3))]\<rparr>"

text \<open>
  The order store holding the order \<open>created3\<close> in a given status, with the inventory as
  it was before the order; and the same with an inventory whose first read and first
  write fail.
\<close>

definition storeWith :: "OrderStatus \<Rightarrow> memStore" where
  "storeWith status =
     \<lparr>savedOrders = [created3\<lparr>Status := status\<rparr>], nextOrderID = 2, storeFaults = []\<rparr>"

definition worldWith :: "OrderStatus \<Rightarrow> (memInventory, memStore, string) world" where
  "worldWith status = \<lparr>inventory = inventory0, store = storeWith status, trace = []\<rparr>"

definition worldRestockFaults :: "(memInventory, memStore, string) world" where
  "worldRestockFaults =
     (worldWith StatusPending)
       \<lparr>inventory := inventory0\<lparr>readFaults := [Some ''timeout''],
                                  writeFaults := [Some ''unavailable'']\<rparr>\<rparr>"

text \<open>
  A database that holds eleven orders of user 1, of one item each, created one after the
  other, and answers every call; and a world whose order store is that database.
\<close>

definition elevenOrders :: "Order list" where
  "elevenOrders =
     map (\<lambda>k. \<lparr>ID = k, UserID = 1, Items = [], Status = StatusPending,
                CreatedAt = k, UpdatedAt = k\<rparr>) [1..11]"

definition databaseEleven :: "string database" where
  "databaseEleven =
     \<lparr>ordersTable = elevenOrders,
      orderItemsTable = map (\<lambda>k. (k, \<lparr>ProductID = 1, Quantity = 1, Price = 10\<rparr>)) [1..11],
      faults = []\<rparr>"

definition worldEleven :: "(memInventory, string database, string repoError) world" where
  "worldEleven = \<lparr>inventory = inventory0, store = databaseEleven, trace = []\<rparr>"

text \<open>What the database returns for the orders of the given identifiers.\<close>

definition listedOrders :: "int list \<Rightarrow> Order list" where
  "listedOrders ids =
     map (\<lambda>k. \<lparr>ID = k, UserID = 1,
                Items = [\<lparr>ProductID = 1, Quantity = 1, Price = 10\<rparr>],
                Status = StatusPending, CreatedAt = k, UpdatedAt = k\<rparr>) ids"

section \<open>Auxiliary notions of the proofs\<close>

text \<open>
  What \<open>productsInfo\<close> holds for a product (0 when the product is not in the map), the
  \<open>currentRequested\<close> of an item, and the map after an item that passed the stock
  comparison: the two \<open>if existing, ok\<close> blocks of the first loop.
\<close>

definition requestedSoFar :: "(int \<times> productCheckInfo) list \<Rightarrow> int \<Rightarrow> int" where
  "requestedSoFar productsInfo p =
     (case map_of productsInfo p of Some existing \<Rightarrow> OrderQuantity existing | None \<Rightarrow> 0)"

definition requestedNext :: "(int \<times> productCheckInfo) list \<Rightarrow> OrderItem \<Rightarrow> int" where
  "requestedNext productsInfo item =
     (case map_of productsInfo (ProductID item) of
        Some existing \<Rightarrow> wrap64 (Quantity item + OrderQuantity existing)
      | None \<Rightarrow> Quantity item)"

definition addRequested ::
  "OrderItem \<Rightarrow> Product \<Rightarrow> (int \<times> productCheckInfo) list \<Rightarrow> (int \<times> productCheckInfo) list" where
  "addRequested item product productsInfo =
     (case map_of productsInfo (ProductID item) of
        Some existing \<Rightarrow>
          AList.update (ProductID item)
            (existing\<lparr>OrderQuantity := wrap64 (OrderQuantity existing + Quantity item)\<rparr>)
            productsInfo
      | None \<Rightarrow>
          AList.update (ProductID item)
            \<lparr>Product = product, OrderQuantity = Quantity item\<rparr> productsInfo)"

section \<open>Validation\<close>

lemma validateItems_Some_kind:
  "validateItems i items = Some e \<Longrightarrow> ValidationError e"
  by (induction items arbitrary: i) (auto split: if_splits)

lemma validateItems_None_iff:
  "(validateItems i items = (None :: 'e ucError option)) =
   (\<forall>item \<in> set items. 0 < ProductID item \<and> 0 < Quantity item \<and> 0 \<le> Price item)"
  by (induction items arbitrary: i) auto

lemma validateOrder_Inl_kind:
  "validateOrder order = Inl e \<Longrightarrow> ValidationError e"
  by (auto simp: validateOrder_def Let_def split: if_splits option.splits
           dest: validateItems_Some_kind)

lemma validateOrder_Inr_iff:
  "((validateOrder order0 :: 'e ucError + Order) = Inr order) =
   (0 < UserID order0 \<and> Items order0 \<noteq> [] \<and>
     (\<forall>item \<in> set (Items order0). 0 < ProductID item \<and> 0 < Quantity item \<and> 0 \<le> Price item) \<and>
     (Status order0 = [] \<or> Status order0 = StatusPending) \<and>
     order = order0\<lparr>Status := StatusPending\<rparr>)"
  unfolding validateOrder_def Let_def
  using validateItems_None_iff[of 0 "Items order0", where 'e='e]
  by (auto split: option.splits simp: StatusPending_def)

text \<open>
  C9. A \<open>CreateOrder\<close> whose user id is not positive, whose item list is empty, or that
  has an item with a product id or a quantity that is not positive, returns a validation
  error, and the world it returns is the world it was given: no call to the inventory or
  to the order store has been made and nothing has been logged.
\<close>

theorem CreateOrder_rejects_invalid_input:
  fixes uc :: "('i, 'r, 'e) orderUseCase"
  assumes "UserID order \<le> 0 \<or> Items order = [] \<or>
           (\<exists>item \<in> set (Items order). ProductID item \<le> 0 \<or> Quantity item \<le> 0)"
  shows "\<exists>e. CreateOrder uc go order w = (Inl e, w) \<and> ValidationError e"
proof -
  have "\<not> (\<exists>order1. (validateOrder order :: 'e ucError + Order) = Inr order1)"
    using assms by (fastforce simp: validateOrder_Inr_iff)
  then obtain e :: "'e ucError" where e: "validateOrder order = Inl e"
    by (cases "validateOrder order :: 'e ucError + Order") auto
  then show ?thesis
    by (auto simp: CreateOrder_def dest: validateOrder_Inl_kind)
qed

theorem CreateOrder_rejects_invalid_input_witness:
  "(\<exists>item \<in> set (Items (orderOf [line 1 2, line 2 0])). Quantity item \<le> 0) \<and>
   (\<exists>e. CreateOrder memUseCase insertionOrder (orderOf [line 1 2, line 2 0]) world0
           = (Inl e, world0) \<and> ValidationError e)"
  using CreateOrder_rejects_invalid_input
          [of "orderOf [line 1 2, line 2 0]" memUseCase insertionOrder world0]
  by (simp add: orderOf_def line_def)

section \<open>The check phase\<close>

lemma callGetProduct_world:
  "callGetProduct c p w = (res, w1) \<Longrightarrow>
     store w1 = store w \<and> trace w1 = trace w @ [CallGetProduct p res] \<and>
     GetProduct c p (inventory w) = (res, inventory w1)"
  by (auto simp: callGetProduct_def split: prod.splits)

lemma callUpdateStock_world:
  "callUpdateStock c p n w = (res, w1) \<Longrightarrow>
     store w1 = store w \<and> trace w1 = trace w @ [CallUpdateStock p n res] \<and>
     UpdateStock c p n (inventory w) = (res, inventory w1)"
  by (auto simp: callUpdateStock_def split: prod.splits)

lemma wrap64_in_range:
  "- (2 ^ 63) \<le> x \<Longrightarrow> x < 2 ^ 63 \<Longrightarrow> wrap64 x = x"
  by (simp add: wrap64_def)

lemma aggregateQuantity_Cons:
  "aggregateQuantity (item # items) p =
     (if ProductID item = p then Quantity item else 0) + aggregateQuantity items p"
  by (simp add: aggregateQuantity_def)

lemma aggregateQuantity_absent:
  "p \<notin> ProductID ` set items \<Longrightarrow> aggregateQuantity items p = 0"
  by (induction items) (auto simp: aggregateQuantity_Cons aggregateQuantity_def)

lemma aggregateQuantity_nonneg:
  "\<forall>item \<in> set items. 0 < Quantity item \<Longrightarrow> 0 \<le> aggregateQuantity items p"
  by (induction items) (auto simp: aggregateQuantity_Cons aggregateQuantity_def)

lemma requestedSoFar_addRequested:
  "requestedSoFar (addRequested item product productsInfo) p =
     (if p = ProductID item then requestedNext productsInfo item
      else requestedSoFar productsInfo p)"
  by (auto simp: requestedSoFar_def requestedNext_def addRequested_def update_conv' add.commute
           split: option.splits)

text \<open>
  While the quantity kept for the product of an item and the quantity of the item are
  not negative and add up below \<open>2 ^ 63\<close>, the sum of the loop does not wrap.
\<close>

lemma requestedNext_no_wrap:
  assumes "0 \<le> requestedSoFar productsInfo (ProductID item)" "0 \<le> Quantity item"
    and "requestedSoFar productsInfo (ProductID item) + Quantity item < 2 ^ 63"
  shows "requestedNext productsInfo item =
           requestedSoFar productsInfo (ProductID item) + Quantity item"
proof (cases "map_of productsInfo (ProductID item)")
  case None
  then show ?thesis by (simp add: requestedNext_def requestedSoFar_def)
next
  case (Some existing)
  with assms have "- (2 ^ 63) \<le> Quantity item + OrderQuantity existing"
    "Quantity item + OrderQuantity existing < 2 ^ 63"
    by (simp_all add: requestedSoFar_def)
  from wrap64_in_range[OF this] Some show ?thesis
    by (simp add: requestedNext_def requestedSoFar_def)
qed

lemma checkInventory_Cons:
  "checkInventory c (item # items) productsInfo w =
     (case callGetProduct c (ProductID item) w of
        (Inl err, w1) \<Rightarrow> (Inl (InventoryCheckFailed (ProductID item) err), w1)
      | (Inr product, w1) \<Rightarrow>
          if Stock product < requestedNext productsInfo item
          then (Inl (InsufficientStock (ProductID item)
                  (requestedNext productsInfo item) (Stock product)), w1)
          else (case checkInventory c items (addRequested item product productsInfo) w1 of
                  (Inl e, w2) \<Rightarrow> (Inl e, w2)
                | (Inr (info, priced), w2) \<Rightarrow>
                    (Inr (info, item\<lparr>Price := ProdPrice product\<rparr> # priced), w2)))"
  by (auto simp: requestedNext_def addRequested_def Let_def
           split: prod.splits sum.splits option.splits)

declare checkInventory.simps(2) [simp del]

lemma checkInventory_world:
  "checkInventory c items productsInfo w = (res, w1) \<Longrightarrow>
     store w1 = store w \<and>
     (\<exists>evs. trace w1 = trace w @ evs \<and> (\<forall>ev \<in> set evs. isGetProduct ev))"
proof (induction items arbitrary: productsInfo w res w1)
  case Nil
  then show ?case by simp
next
  case (Cons item items)
  obtain r w0 where get: "callGetProduct c (ProductID item) w = (r, w0)"
    by (cases "callGetProduct c (ProductID item) w")
  note g = callGetProduct_world[OF get]
  show ?case
  proof (cases r)
    case (Inl err)
    with Cons.prems get g show ?thesis by (auto simp: checkInventory_Cons)
  next
    case (Inr product)
    show ?thesis
    proof (cases "Stock product < requestedNext productsInfo item")
      case True
      with Cons.prems get g Inr show ?thesis by (auto simp: checkInventory_Cons)
    next
      case False
      obtain res0 w2 where
        rec: "checkInventory c items (addRequested item product productsInfo) w0 = (res0, w2)"
        by (cases "checkInventory c items (addRequested item product productsInfo) w0")
      from Cons.prems get Inr False rec have "w1 = w2"
        by (auto simp: checkInventory_Cons split: sum.splits prod.splits)
      with Cons.IH[OF rec] g show ?thesis by auto
    qed
  qed
qed

text \<open>
  The first loop with reads that succeed and leave the inventory as it is, on quantities
  that are positive and add up, for each product, below \<open>2 ^ 63\<close>: when the quantity kept
  so far plus the quantity of the items to come exceeds the stock observed for some
  product to come, the loop ends with the insufficient-stock error.
\<close>

lemma checkInventory_insufficient:
  assumes "\<forall>item \<in> set items.
             GetProduct c (ProductID item) (inventory w) =
               (Inr (observed (ProductID item)), inventory w)"
    and "\<forall>item \<in> set items. 0 < Quantity item"
    and "\<forall>p. 0 \<le> requestedSoFar productsInfo p"
    and "\<forall>item \<in> set items.
           requestedSoFar productsInfo (ProductID item) +
             aggregateQuantity items (ProductID item) < 2 ^ 63"
    and "\<exists>item \<in> set items.
           Stock (observed (ProductID item)) <
             requestedSoFar productsInfo (ProductID item) + aggregateQuantity items (ProductID item)"
  shows "\<exists>p r a w1. checkInventory c items productsInfo w = (Inl (InsufficientStock p r a), w1) \<and>
           inventory w1 = inventory w"
  using assms
proof (induction items arbitrary: productsInfo w)
  case Nil
  then show ?case by simp
next
  case (Cons item items)
  let ?q = "ProductID item"
  define w0 where
    "w0 = w\<lparr>inventory := inventory w, trace := trace w @ [CallGetProduct ?q (Inr (observed ?q))]\<rparr>"
  have get: "callGetProduct c ?q w = (Inr (observed ?q), w0)"
    using Cons.prems(1) by (simp add: callGetProduct_def w0_def)
  have inv0: "inventory w0 = inventory w" by (simp add: w0_def)
  have pos: "0 < Quantity item" and posrest: "\<forall>x \<in> set items. 0 < Quantity x"
    using Cons.prems(2) by simp_all
  have rest0: "0 \<le> aggregateQuantity items ?q"
    by (rule aggregateQuantity_nonneg[OF posrest])
  have "requestedSoFar productsInfo ?q + aggregateQuantity (item # items) ?q < 2 ^ 63"
    using Cons.prems(4) by simp
  then have small: "requestedSoFar productsInfo ?q + Quantity item < 2 ^ 63"
    using rest0 by (simp add: aggregateQuantity_Cons)
  have next_eq: "requestedNext productsInfo item = requestedSoFar productsInfo ?q + Quantity item"
    using Cons.prems(3) pos small by (intro requestedNext_no_wrap) simp_all
  show ?case
  proof (cases "Stock (observed ?q) < requestedNext productsInfo item")
    case True
    with get inv0 show ?thesis by (simp add: checkInventory_Cons)
  next
    case False
    let ?info = "addRequested item (observed ?q) productsInfo"
    have sofar: "\<And>p. requestedSoFar ?info p =
        (if p = ?q then requestedSoFar productsInfo ?q + Quantity item
         else requestedSoFar productsInfo p)"
      by (simp add: requestedSoFar_addRequested next_eq)
    have total: "\<And>p. requestedSoFar ?info p + aggregateQuantity items p =
                 requestedSoFar productsInfo p + aggregateQuantity (item # items) p"
      by (auto simp: sofar aggregateQuantity_Cons)
    from Cons.prems(5) obtain item' where
      mem: "item' \<in> set (item # items)" and
      exc: "Stock (observed (ProductID item')) <
              requestedSoFar productsInfo (ProductID item') +
              aggregateQuantity (item # items) (ProductID item')"
      by blast
    let ?p = "ProductID item'"
    have later: "?p \<in> ProductID ` set items"
    proof (rule ccontr)
      assume absent: "?p \<notin> ProductID ` set items"
      then have "item' = item" using mem by auto
      with exc absent False next_eq show False
        by (simp add: aggregateQuantity_Cons aggregateQuantity_absent)
    qed
    then obtain item'' where i2: "item'' \<in> set items" "ProductID item'' = ?p" by auto
    have reads: "\<forall>x \<in> set items. GetProduct c (ProductID x) (inventory w0) =
                   (Inr (observed (ProductID x)), inventory w0)"
      using Cons.prems(1) inv0 by simp
    have nonneg: "\<forall>p. 0 \<le> requestedSoFar ?info p"
      using Cons.prems(3) pos by (simp add: sofar add_nonneg_nonneg)
    have bound: "\<forall>x \<in> set items.
           requestedSoFar ?info (ProductID x) + aggregateQuantity items (ProductID x) < 2 ^ 63"
      using Cons.prems(4) by (simp add: total)
    have "\<exists>x \<in> set items. Stock (observed (ProductID x)) <
            requestedSoFar ?info (ProductID x) + aggregateQuantity items (ProductID x)"
      using i2 exc total[of ?p] by (intro bexI[of _ item'']) simp_all
    from Cons.IH[OF reads posrest nonneg bound this] obtain p r a w1 where
      "checkInventory c items ?info w0 = (Inl (InsufficientStock p r a), w1)"
      "inventory w1 = inventory w0"
      by blast
    with get False inv0 show ?thesis by (simp add: checkInventory_Cons)
  qed
qed

text \<open>
  C1, as stated, fails where the sum of the loop wraps: two lines for product 1 of
  quantities 1 and \<open>2 ^ 63 - 1\<close>, with stock 5. The aggregate \<open>2 ^ 63\<close> exceeds the stock,
  but the 64-bit sum of the second line is \<open>- (2 ^ 63)\<close>, the comparison with the stock
  passes, and the reservation calls \<open>UpdateStock\<close> (with a negative stock, which the
  client refuses): the call ends with the error of the reservation.
\<close>

theorem CreateOrder_aggregate_wraps_counterexample:
  "Stock \<lparr>ProdID = 1, ProdName = ''P'', ProdPrice = 10, Stock = 5\<rparr> <
     aggregateQuantity (Items orderOverflow) 1 \<and>
   CreateOrder memUseCase insertionOrder orderOverflow world0 =
     (Inl (ReserveStockFailed 1 ''stock cannot be negative''),
      world0\<lparr>trace :=
        [CallGetProduct 1 (Inr \<lparr>ProdID = 1, ProdName = ''P'', ProdPrice = 10, Stock = 5\<rparr>),
         CallGetProduct 1 (Inr \<lparr>ProdID = 1, ProdName = ''P'', ProdPrice = 10, Stock = 5\<rparr>),
         CallUpdateStock 1 (- 9223372036854775803) (Some ''stock cannot be negative''),
         LogError (DecreaseStockFailed 1 ''stock cannot be negative'')]\<rparr>)"
proof (intro conjI)
  show "Stock \<lparr>ProdID = 1, ProdName = ''P'', ProdPrice = 10, Stock = 5\<rparr> <
          aggregateQuantity (Items orderOverflow) 1"
    by (simp add: aggregateQuantity_def orderOverflow_def orderOf_def line_def)
  show "CreateOrder memUseCase insertionOrder orderOverflow world0 =
     (Inl (ReserveStockFailed 1 ''stock cannot be negative''),
      world0\<lparr>trace :=
        [CallGetProduct 1 (Inr \<lparr>ProdID = 1, ProdName = ''P'', ProdPrice = 10, Stock = 5\<rparr>),
         CallGetProduct 1 (Inr \<lparr>ProdID = 1, ProdName = ''P'', ProdPrice = 10, Stock = 5\<rparr>),
         CallUpdateStock 1 (- 9223372036854775803) (Some ''stock cannot be negative''),
         LogError (DecreaseStockFailed 1 ''stock cannot be negative'')]\<rparr>)"
    by code_simp
qed

text \<open>
  C1, as amended. The quantity asked of a product is the sum over all the line items of
  that product (\<open>aggregateQuantity\<close>). Take an order that passes validation and whose
  aggregate, for each of its products, is below \<open>2 ^ 63\<close> (it fits Go's \<open>int\<close>), and let
  reading each of its products from the inventory succeed and leave the inventory as it
  is, \<open>observed\<close> being what the reads return. If for some product of the order the
  aggregate exceeds the stock observed, \<open>CreateOrder\<close> returns an insufficient-stock
  error, the calls it has made are \<open>GetProduct\<close> calls only (no \<open>UpdateStock\<close>, no call
  to the order store), and the inventory and the order store are unchanged.
\<close>

theorem CreateOrder_insufficient_stock:
  fixes uc :: "('i, 'r, 'e) orderUseCase"
  assumes valid: "(validateOrder order0 :: 'e ucError + Order) = Inr order"
    and fits: "\<forall>item \<in> set (Items order0).
                 aggregateQuantity (Items order0) (ProductID item) < 2 ^ 63"
    and reads: "\<forall>item \<in> set (Items order0).
                  GetProduct (inventoryClient uc) (ProductID item) (inventory w) =
                    (Inr (observed (ProductID item)), inventory w)"
    and exceeds: "\<exists>item \<in> set (Items order0).
                    Stock (observed (ProductID item)) <
                      aggregateQuantity (Items order0) (ProductID item)"
  shows "\<exists>e w1 evs. CreateOrder uc go order0 w = (Inl e, w1) \<and> InsufficientStockError e \<and>
           inventory w1 = inventory w \<and> store w1 = store w \<and>
           trace w1 = trace w @ evs \<and> (\<forall>ev \<in> set evs. isGetProduct ev)"
proof -
  from valid have items: "Items order = Items order0"
    and pos: "\<forall>item \<in> set (Items order0). 0 < Quantity item"
    by (auto simp: validateOrder_Inr_iff)
  have nonneg: "\<forall>p. 0 \<le> requestedSoFar [] p" by (simp add: requestedSoFar_def)
  have bound: "\<forall>item \<in> set (Items order).
           requestedSoFar [] (ProductID item) +
             aggregateQuantity (Items order) (ProductID item) < 2 ^ 63"
    using fits by (simp add: items requestedSoFar_def)
  have exc: "\<exists>item \<in> set (Items order).
           Stock (observed (ProductID item)) <
             requestedSoFar [] (ProductID item) + aggregateQuantity (Items order) (ProductID item)"
    using exceeds by (simp add: items requestedSoFar_def)
  from checkInventory_insufficient[OF reads[folded items] pos[folded items] nonneg bound exc]
  obtain p r a w1 where
    chk: "checkInventory (inventoryClient uc) (Items order) [] w = (Inl (InsufficientStock p r a), w1)"
    and inv: "inventory w1 = inventory w"
    by blast
  from checkInventory_world[OF chk] obtain evs where
    "store w1 = store w" "trace w1 = trace w @ evs" "\<forall>ev \<in> set evs. isGetProduct ev"
    by blast
  with chk inv valid show ?thesis
    by (auto simp: CreateOrder_def)
qed

lemma validateOrder_three_lines:
  "(validateOrder (orderOf [line 1 2, line 1 2, line 1 2]) :: string ucError + Order) =
     Inr ((orderOf [line 1 2, line 1 2, line 1 2])\<lparr>Status := StatusPending\<rparr>)"
  by (simp add: validateOrder_Inr_iff orderOf_def line_def)

lemma memGetProduct_no_fault:
  "readFaults s = [] \<Longrightarrow> map_of (products s) p = Some product \<Longrightarrow>
     memGetProduct p s = (Inr product, s)"
  by (simp add: memGetProduct_def)

theorem CreateOrder_insufficient_stock_witness:
  "(validateOrder (orderOf [line 1 2, line 1 2, line 1 2]) :: string ucError + Order) =
     Inr ((orderOf [line 1 2, line 1 2, line 1 2])\<lparr>Status := StatusPending\<rparr>) \<and>
   GetProduct (inventoryClient memUseCase) 1 (inventory world0) =
     (Inr \<lparr>ProdID = 1, ProdName = ''P'', ProdPrice = 10, Stock = 5\<rparr>, inventory world0) \<and>
   aggregateQuantity (Items (orderOf [line 1 2, line 1 2, line 1 2])) 1 = 6 \<and>
   (6 :: int) < 2 ^ 63 \<and>
   (\<exists>e w1 evs. CreateOrder memUseCase insertionOrder (orderOf [line 1 2, line 1 2, line 1 2]) world0
        = (Inl e, w1) \<and> InsufficientStockError e \<and>
      inventory w1 = inventory world0 \<and> store w1 = store world0 \<and>
      trace w1 = trace world0 @ evs \<and> (\<forall>ev \<in> set evs. isGetProduct ev))"
proof -
  let ?P = "\<lparr>ProdID = 1, ProdName = ''P'', ProdPrice = 10, Stock = 5\<rparr>"
  let ?order = "orderOf [line 1 2, line 1 2, line 1 2]"
  have get: "GetProduct (inventoryClient memUseCase) 1 (inventory world0) = (Inr ?P, inventory world0)"
    by (simp add: memUseCase_def memInventoryClient_def world0_def inventory0_def
          memGetProduct_no_fault)
  have agg: "aggregateQuantity (Items ?order) 1 = 6"
    by (simp add: aggregateQuantity_def orderOf_def line_def)
  have small: "(6 :: int) < 2 ^ 63" by simp
  have fits: "\<forall>item \<in> set (Items ?order). aggregateQuantity (Items ?order) (ProductID item) < 2 ^ 63"
    by (simp add: aggregateQuantity_def orderOf_def line_def)
  have reads: "\<forall>item \<in> set (Items ?order).
      GetProduct (inventoryClient memUseCase) (ProductID item) (inventory world0) =
        (Inr ((\<lambda>p. ?P) (ProductID item)), inventory world0)"
    using get by (simp add: orderOf_def line_def)
  have exceeds: "\<exists>item \<in> set (Items ?order).
      Stock ((\<lambda>p. ?P) (ProductID item)) < aggregateQuantity (Items ?order) (ProductID item)"
    by (simp add: aggregateQuantity_def orderOf_def line_def)
  note t = CreateOrder_insufficient_stock
             [OF validateOrder_three_lines fits reads exceeds, of insertionOrder]
  show ?thesis by (intro conjI validateOrder_three_lines get agg small t)
qed

text \<open>
  The scenario of the specification: stock 5, three lines of quantity 2 for the product.
\<close>

lemma CreateOrder_three_lines_run:
  "CreateOrder memUseCase insertionOrder (orderOf [line 1 2, line 1 2, line 1 2]) world0 =
     (Inl (InsufficientStock 1 6 5),
      world0\<lparr>trace :=
        [CallGetProduct 1 (Inr \<lparr>ProdID = 1, ProdName = ''P'', ProdPrice = 10, Stock = 5\<rparr>),
         CallGetProduct 1 (Inr \<lparr>ProdID = 1, ProdName = ''P'', ProdPrice = 10, Stock = 5\<rparr>),
         CallGetProduct 1 (Inr \<lparr>ProdID = 1, ProdName = ''P'', ProdPrice = 10, Stock = 5\<rparr>)]\<rparr>)"
  by code_simp

section \<open>The reservation and the rollback\<close>

lemma update_fresh:
  "k \<notin> fst ` set al \<Longrightarrow> AList.update k v al = al @ [(k, v)]"
  by (induction al) auto

lemma map_of_addRequested:
  "map_of (addRequested item product productsInfo) p =
     (if p = ProductID item
      then (case map_of productsInfo p of
              Some existing \<Rightarrow>
                Some (existing\<lparr>OrderQuantity := wrap64 (OrderQuantity existing + Quantity item)\<rparr>)
            | None \<Rightarrow> Some \<lparr>Product = product, OrderQuantity = Quantity item\<rparr>)
      else map_of productsInfo p)"
  by (auto simp: addRequested_def update_conv' split: option.splits)

lemma keys_addRequested:
  "fst ` set (addRequested item product productsInfo) = insert (ProductID item) (fst ` set productsInfo)"
  by (auto simp: addRequested_def dom_update split: option.splits)

lemma distinct_addRequested:
  "distinct (map fst productsInfo) \<Longrightarrow> distinct (map fst (addRequested item product productsInfo))"
  by (auto simp: addRequested_def distinct_update split: option.splits)

lemma checkInventory_success:
  "checkInventory c items productsInfo w = (Inr (info, priced), w1) \<Longrightarrow>
   \<exists>ps. length ps = length items \<and>
     trace w1 = trace w @ readEvents items ps \<and>
     priced = stampPrices items ps \<and> store w1 = store w \<and>
     fst ` set info = fst ` set productsInfo \<union> ProductID ` set items \<and>
     (distinct (map fst productsInfo) \<longrightarrow> distinct (map fst info)) \<and>
     (\<forall>p i. map_of info p = Some i \<longrightarrow>
        (\<exists>i0. map_of productsInfo p = Some i0 \<and> Product i0 = Product i) \<or>
        (\<exists>k < length items. ProductID (items ! k) = p \<and> Product i = ps ! k))"
proof (induction items arbitrary: productsInfo w info priced)
  case Nil
  then show ?case by (simp add: readEvents_def stampPrices_def aggregateQuantity_def)
next
  case (Cons item items)
  from Cons.prems obtain product w0 where
    get: "callGetProduct c (ProductID item) w = (Inr product, w0)"
    by (auto simp: checkInventory_Cons split: prod.splits sum.splits)
  let ?info0 = "addRequested item product productsInfo"
  from Cons.prems get obtain priced0 where
    rec: "checkInventory c items ?info0 w0 = (Inr (info, priced0), w1)"
    and pr: "priced = item\<lparr>Price := ProdPrice product\<rparr> # priced0"
    by (auto simp: checkInventory_Cons split: prod.splits sum.splits if_splits)
  from Cons.IH[OF rec] obtain ps where
    ps: "length ps = length items" "trace w1 = trace w0 @ readEvents items ps"
        "priced0 = stampPrices items ps" "store w1 = store w0"
        "fst ` set info = fst ` set ?info0 \<union> ProductID ` set items"
        "distinct (map fst ?info0) \<longrightarrow> distinct (map fst info)"
        "\<forall>p i. map_of info p = Some i \<longrightarrow>
           (\<exists>i0. map_of ?info0 p = Some i0 \<and> Product i0 = Product i) \<or>
           (\<exists>k < length items. ProductID (items ! k) = p \<and> Product i = ps ! k)"
    by blast
  note g = callGetProduct_world[OF get]
  have 1: "length (product # ps) = length (item # items)" using ps(1) by simp
  have 2: "trace w1 = trace w @ readEvents (item # items) (product # ps)"
    using g ps(2) by (simp add: readEvents_def)
  have 3: "priced = stampPrices (item # items) (product # ps)"
    using pr ps(3) by (simp add: stampPrices_def)
  have 4: "store w1 = store w" using g ps(4) by simp
  have 5: "fst ` set info = fst ` set productsInfo \<union> ProductID ` set (item # items)"
    using ps(5) by (auto simp: keys_addRequested)
  have 6: "distinct (map fst productsInfo) \<longrightarrow> distinct (map fst info)"
    using ps(6) by (simp add: distinct_addRequested)
  have 8: "\<forall>p i. map_of info p = Some i \<longrightarrow>
        (\<exists>i0. map_of productsInfo p = Some i0 \<and> Product i0 = Product i) \<or>
        (\<exists>k < length (item # items). ProductID ((item # items) ! k) = p \<and> Product i = (product # ps) ! k)"
  proof (intro allI impI)
    fix p i assume m: "map_of info p = Some i"
    from ps(7) m consider
      (old) i0 where "map_of ?info0 p = Some i0" "Product i0 = Product i"
      | (new) k where "k < length items" "ProductID (items ! k) = p" "Product i = ps ! k"
      by blast
    then show "(\<exists>i0. map_of productsInfo p = Some i0 \<and> Product i0 = Product i) \<or>
        (\<exists>k < length (item # items). ProductID ((item # items) ! k) = p \<and> Product i = (product # ps) ! k)"
    proof cases
      case old
      show ?thesis
      proof (cases "p = ProductID item")
        case True
        show ?thesis
        proof (cases "map_of productsInfo p")
          case None
          with old True have "Product i = product" by (auto simp: map_of_addRequested)
          with True have "0 < length (item # items) \<and> ProductID ((item # items) ! 0) = p \<and>
              Product i = (product # ps) ! 0" by simp
          then show ?thesis by blast
        next
          case (Some existing)
          with old True show ?thesis by (auto simp: map_of_addRequested)
        qed
      next
        case False
        with old show ?thesis by (auto simp: map_of_addRequested)
      qed
    next
      case new
      then have "Suc k < length (item # items) \<and> ProductID ((item # items) ! Suc k) = p \<and>
          Product i = (product # ps) ! Suc k" by simp
      then show ?thesis by blast
    qed
  qed
  from 1 2 3 4 5 6 8 show ?case by blast
qed

lemma reserveStock_trace:
  "reserveStock c entries acc w = (res, w1) \<Longrightarrow>
   distinct (map fst entries) \<Longrightarrow> fst ` set entries \<inter> fst ` set acc = {} \<Longrightarrow>
     store w1 = store w \<and>
     (case res of
        Inr decreased \<Rightarrow>
          decreased = acc @ map (\<lambda>(p, i). (p, OrderQuantity i)) entries \<and>
          trace w1 = trace w @
            map (\<lambda>(p, i). CallUpdateStock p (wrap64 (Stock (Product i) - OrderQuantity i)) None) entries
      | Inl (p, e, decreased) \<Rightarrow>
          (\<exists>pre i post. entries = pre @ (p, i) # post \<and>
             decreased = acc @ map (\<lambda>(p, i). (p, OrderQuantity i)) pre \<and>
             trace w1 = trace w @
               map (\<lambda>(p, i). CallUpdateStock p (wrap64 (Stock (Product i) - OrderQuantity i)) None) pre @
               [CallUpdateStock p (wrap64 (Stock (Product i) - OrderQuantity i)) (Some e),
                LogError (DecreaseStockFailed p e)]))"
proof (induction entries arbitrary: acc w)
  case Nil
  then show ?case by auto
next
  case (Cons entry entries)
  obtain p i where entry: "entry = (p, i)" by (cases entry)
  obtain r w0 where upd: "callUpdateStock c p (wrap64 (Stock (Product i) - OrderQuantity i)) w = (r, w0)"
    by (cases "callUpdateStock c p (wrap64 (Stock (Product i) - OrderQuantity i)) w")
  note u = callUpdateStock_world[OF upd]
  show ?case
  proof (cases r)
    case (Some e)
    with Cons.prems(1) entry upd have "res = Inl (p, e, acc)"
      "w1 = logError (DecreaseStockFailed p e) w0"
      by (auto simp: Let_def)
    with u Some entry show ?thesis
      by (auto simp: logError_def intro!: exI[of _ "[]"])
  next
    case None
    have fresh: "p \<notin> fst ` set acc" using Cons.prems(3) entry by auto
    let ?acc = "acc @ [(p, OrderQuantity i)]"
    from Cons.prems(1) entry upd None
    have rec: "reserveStock c entries ?acc w0 = (res, w1)"
      by (simp add: Let_def update_fresh[OF fresh])
    have d: "distinct (map fst entries)" using Cons.prems(2) by simp
    have dis: "fst ` set entries \<inter> fst ` set ?acc = {}"
      using Cons.prems(2,3) entry by auto
    note ih = Cons.IH[OF rec d dis]
    show ?thesis
    proof (cases res)
      case (Inr decreased)
      with ih u None entry show ?thesis by auto
    next
      case (Inl failure)
      obtain q e decreased where f: "failure = (q, e, decreased)" by (cases failure)
      from ih Inl f obtain pre j post where
        "entries = pre @ (q, j) # post"
        "decreased = ?acc @ map (\<lambda>(p, i). (p, OrderQuantity i)) pre"
        "trace w1 = trace w0 @
               map (\<lambda>(p, i). CallUpdateStock p (wrap64 (Stock (Product i) - OrderQuantity i)) None) pre @
               [CallUpdateStock q (wrap64 (Stock (Product j) - OrderQuantity j)) (Some e),
                LogError (DecreaseStockFailed q e)]"
        "store w1 = store w0"
        by auto
      with u None entry Inl f show ?thesis
        by (auto intro!: exI[of _ "(p, i) # pre"])
    qed
  qed
qed

lemma rollbackStock_trace:
  "\<forall>p \<in> fst ` set entries. map_of productsInfo p \<noteq> None \<Longrightarrow>
   \<exists>results evs w1. rollbackStock c entry productsInfo entries w = (None, w1) \<and>
     length results = length entries \<and>
     applyCompensation c (stockAtCheck productsInfo) (map fst entries) (inventory w) =
       (results, inventory w1) \<and>
     compensationTrace entry (stockAtCheck productsInfo) (map fst entries) results = Some evs \<and>
     trace w1 = trace w @ evs \<and> store w1 = store w"
proof (induction entries arbitrary: w)
  case Nil
  show ?case by (auto intro!: exI[of _ "[]"])
next
  case (Cons e entries)
  obtain p q where e: "e = (p, q)" by (cases e)
  from Cons.prems e obtain i where i: "map_of productsInfo p = Some i" by auto
  obtain r w0 where upd: "callUpdateStock c p (Stock (Product i)) w = (r, w0)"
    by (cases "callUpdateStock c p (Stock (Product i)) w")
  note u = callUpdateStock_world[OF upd]
  let ?w = "case r of Some err \<Rightarrow> logError (entry p err) w0 | None \<Rightarrow> w0"
  have inv: "inventory ?w = inventory w0" by (cases r) (simp_all add: logError_def)
  from Cons.prems have "\<forall>p \<in> fst ` set entries. map_of productsInfo p \<noteq> None" by simp
  from Cons.IH[OF this, of ?w] obtain results evs w1 where
    ih: "rollbackStock c entry productsInfo entries ?w = (None, w1)"
        "length results = length entries"
        "applyCompensation c (stockAtCheck productsInfo) (map fst entries) (inventory ?w) =
           (results, inventory w1)"
        "compensationTrace entry (stockAtCheck productsInfo) (map fst entries) results = Some evs"
        "trace w1 = trace ?w @ evs" "store w1 = store ?w"
    by (elim exE conjE)
  have run: "rollbackStock c entry productsInfo (e # entries) w = (None, w1)"
    using e i upd ih(1) by (cases r) (simp_all add: Let_def)
  have len: "length (r # results) = length (e # entries)" using ih(2) by simp
  have app: "applyCompensation c (stockAtCheck productsInfo) (map fst (e # entries)) (inventory w) =
      (r # results, inventory w1)"
    using e i u ih(3) by (simp add: stockAtCheck_def inv)
  have tr: "compensationTrace entry (stockAtCheck productsInfo) (map fst (e # entries)) (r # results) =
      Some (CallUpdateStock p (Stock (Product i)) r #
            (case r of Some err \<Rightarrow> [LogError (entry p err)] | None \<Rightarrow> []) @ evs)"
    using e i ih(4) by (simp add: stockAtCheck_def)
  have t: "trace w1 = trace w @ (CallUpdateStock p (Stock (Product i)) r #
            (case r of Some err \<Rightarrow> [LogError (entry p err)] | None \<Rightarrow> []) @ evs)"
    using u ih(5) by (cases r) (simp_all add: logError_def)
  have st: "store w1 = store w" using u ih(6) by (cases r) (simp_all add: logError_def)
  have "rollbackStock c entry productsInfo (e # entries) w = (None, w1) \<and>
     length (r # results) = length (e # entries) \<and>
     applyCompensation c (stockAtCheck productsInfo) (map fst (e # entries)) (inventory w) =
       (r # results, inventory w1) \<and>
     compensationTrace entry (stockAtCheck productsInfo) (map fst (e # entries)) (r # results) =
       Some (CallUpdateStock p (Stock (Product i)) r #
            (case r of Some err \<Rightarrow> [LogError (entry p err)] | None \<Rightarrow> []) @ evs) \<and>
     trace w1 = trace w @ (CallUpdateStock p (Stock (Product i)) r #
            (case r of Some err \<Rightarrow> [LogError (entry p err)] | None \<Rightarrow> []) @ evs) \<and>
     store w1 = store w"
    by (intro conjI run len app tr t st)
  then show ?case by (intro exI)
qed

lemma succeededUpdates_append_successes:
  "succeededUpdates (map (\<lambda>(p, i). CallUpdateStock p (f p i) None) pre @ rest) =
     map fst pre @ succeededUpdates rest"
  by (induction pre) auto

lemma validRangeOrder_keys:
  assumes "validRangeOrder go"
  shows "mset (map fst (productsInfoOrder go m)) = mset (map fst m)"
    and "mset (map fst (successfullyDecreasedOrder go d)) = mset (map fst d)"
proof -
  from assms have a: "mset (productsInfoOrder go m) = mset m"
    and b: "mset (successfullyDecreasedOrder go d) = mset d"
    by (auto simp: validRangeOrder_def)
  show "mset (map fst (productsInfoOrder go m)) = mset (map fst m)"
    using arg_cong[OF a, of "image_mset fst"] by simp
  show "mset (map fst (successfullyDecreasedOrder go d)) = mset (map fst d)"
    using arg_cong[OF b, of "image_mset fst"] by simp
qed

lemma readEvents_nth:
  "length ps = length items \<Longrightarrow> k < length items \<Longrightarrow>
     CallGetProduct (ProductID (items ! k)) (Inr (ps ! k)) \<in> set (readEvents items ps)"
  unfolding readEvents_def set_map set_zip by force

lemma checkInventory_from_empty:
  assumes "checkInventory c items [] w = (Inr (info, priced), w1)"
  shows "\<exists>ps. length ps = length items \<and>
     trace w1 = trace w @ readEvents items ps \<and>
     priced = stampPrices items ps \<and> store w1 = store w \<and>
     fst ` set info = ProductID ` set items \<and>
     distinct (map fst info) \<and>
     (\<forall>p i. map_of info p = Some i \<longrightarrow>
        (\<exists>k < length items. ProductID (items ! k) = p \<and> Product i = ps ! k))"
  using checkInventory_success[OF assms] by simp

lemma checkInventory_stockAtCheck:
  assumes ps: "length ps = length items"
        "\<forall>p i. map_of productsInfo p = Some i \<longrightarrow>
           (\<exists>k < length items. ProductID (items ! k) = p \<and> Product i = ps ! k)"
    and p: "p \<in> fst ` set productsInfo"
  shows "\<exists>product. CallGetProduct p (Inr product) \<in> set (readEvents items ps) \<and>
           stockAtCheck productsInfo p = Some (Stock product)"
proof -
  from p obtain i where i: "map_of productsInfo p = Some i"
    by (cases "map_of productsInfo p") (auto simp: map_of_eq_None_iff)
  with ps(2) obtain k where k: "k < length items" "ProductID (items ! k) = p" "Product i = ps ! k"
    by blast
  from readEvents_nth[OF ps(1) k(1)] k i show ?thesis
    by (auto simp: stockAtCheck_def)
qed

text \<open>
  C2. Take a \<open>CreateOrder\<close> whose order passes validation and whose check phase succeeds
  (\<open>reads\<close> its calls, \<open>productsInfo\<close> what it kept), and whose reservation pass stops at
  a failed \<open>UpdateStock\<close> for \<open>productID\<close> with error \<open>err\<close> (\<open>writes\<close> the calls of the
  pass, \<open>w2\<close> the world it leaves). Then the products recorded as decreased are those of
  the \<open>UpdateStock\<close> calls of the pass that succeeded. The inventory the call leaves is
  the one the compensation makes of the inventory of \<open>w2\<close>: for each of these products,
  once, in the order the run time visits the map, the \<open>UpdateStock\<close> of the client with
  the stock kept at the check, which is the stock of a product a \<open>GetProduct\<close> of the
  check phase returned for it (\<open>results\<close> is what these calls return). The rest of the
  trace is these calls, each followed by a log line when it fails; the order store is
  unchanged; and the call returns the error of the failed reservation, whatever the
  compensation calls return.
\<close>

theorem CreateOrder_compensates_failed_reservation:
  fixes uc :: "('i, 'r, 'e) orderUseCase"
  assumes go: "validRangeOrder go"
    and valid: "(validateOrder order0 :: 'e ucError + Order) = Inr order"
    and check: "checkInventory (inventoryClient uc) (Items order) [] w =
                  (Inr (productsInfo, priced), w1)"
    and reserve: "reserveStock (inventoryClient uc) (productsInfoOrder go productsInfo) [] w1 =
                  (Inl (productID, err, successfullyDecreased), w2)"
  shows "\<exists>reads writes results evs w3.
           CreateOrder uc go order0 w = (Inl (ReserveStockFailed productID err), w3) \<and>
           trace w1 = trace w @ reads \<and> trace w2 = trace w1 @ writes \<and>
           trace w3 = trace w2 @ evs \<and>
           map fst successfullyDecreased = succeededUpdates writes \<and>
           mset (map fst (successfullyDecreasedOrder go successfullyDecreased)) =
             mset (succeededUpdates writes) \<and>
           applyCompensation (inventoryClient uc) (stockAtCheck productsInfo)
             (map fst (successfullyDecreasedOrder go successfullyDecreased)) (inventory w2) =
             (results, inventory w3) \<and>
           length results = length (succeededUpdates writes) \<and>
           store w3 = store w \<and>
           compensationTrace RollbackFailed (stockAtCheck productsInfo)
             (map fst (successfullyDecreasedOrder go successfullyDecreased)) results = Some evs \<and>
           (\<forall>p \<in> set (succeededUpdates writes). \<exists>product.
              CallGetProduct p (Inr product) \<in> set reads \<and>
              stockAtCheck productsInfo p = Some (Stock product))"
proof -
  let ?c = "inventoryClient uc"
  let ?ordered = "productsInfoOrder go productsInfo"
  let ?rb = "successfullyDecreasedOrder go successfullyDecreased"
  from checkInventory_from_empty[OF check] obtain ps where
    ps: "length ps = length (Items order)" "trace w1 = trace w @ readEvents (Items order) ps"
        "fst ` set productsInfo = ProductID ` set (Items order)"
        "distinct (map fst productsInfo)"
        "\<forall>p i. map_of productsInfo p = Some i \<longrightarrow>
           (\<exists>k < length (Items order). ProductID (Items order ! k) = p \<and> Product i = ps ! k)"
        "store w1 = store w"
    by (elim exE conjE)
  have keys: "mset (map fst ?ordered) = mset (map fst productsInfo)"
    by (rule validRangeOrder_keys(1)[OF go])
  have dist: "distinct (map fst ?ordered)"
    using ps(4) mset_eq_imp_distinct_iff[OF keys] by simp
  from reserveStock_trace[OF reserve dist] obtain pre i post where
    r: "?ordered = pre @ (productID, i) # post"
       "successfullyDecreased = map (\<lambda>(p, i). (p, OrderQuantity i)) pre"
       "trace w2 = trace w1 @
          map (\<lambda>(p, i). CallUpdateStock p (wrap64 (Stock (Product i) - OrderQuantity i)) None) pre @
          [CallUpdateStock productID (wrap64 (Stock (Product i) - OrderQuantity i)) (Some err),
           LogError (DecreaseStockFailed productID err)]"
       "store w2 = store w1"
    by auto
  define writes where "writes =
      map (\<lambda>(p, i). CallUpdateStock p (wrap64 (Stock (Product i) - OrderQuantity i)) None) pre @
      [CallUpdateStock productID (wrap64 (Stock (Product i) - OrderQuantity i)) (Some err),
       LogError (DecreaseStockFailed productID err)]"
  have wr: "trace w2 = trace w1 @ writes" using r(3) by (simp add: writes_def)
  have dec: "map fst successfullyDecreased = succeededUpdates writes"
    unfolding writes_def succeededUpdates_append_successes r(2)
    by (simp add: case_prod_beta comp_def)
  have sub: "fst ` set successfullyDecreased \<subseteq> fst ` set productsInfo"
  proof -
    have "fst ` set successfullyDecreased = fst ` set pre"
      using r(2) by (force simp: case_prod_beta)
    also have "\<dots> \<subseteq> set (map fst ?ordered)" using r(1) by auto
    also have "\<dots> = set (map fst productsInfo)" using keys by (rule mset_eq_setD)
    finally show ?thesis by simp
  qed
  have rbkeys: "mset (map fst ?rb) = mset (map fst successfullyDecreased)"
    by (rule validRangeOrder_keys(2)[OF go])
  have rbk: "mset (map fst ?rb) = mset (succeededUpdates writes)"
    using rbkeys dec by simp
  have "\<forall>p \<in> fst ` set ?rb. map_of productsInfo p \<noteq> None"
  proof
    fix p assume "p \<in> fst ` set ?rb"
    then have "p \<in> set (map fst ?rb)" by simp
    then have "p \<in> set (map fst successfullyDecreased)"
      using mset_eq_setD[OF rbkeys] by simp
    with sub have "p \<in> fst ` set productsInfo" by auto
    then show "map_of productsInfo p \<noteq> None" by (simp add: map_of_eq_None_iff)
  qed
  from rollbackStock_trace[OF this, of ?c RollbackFailed w2] obtain results evs w3 where
    rb: "rollbackStock ?c RollbackFailed productsInfo ?rb w2 = (None, w3)"
        "length results = length ?rb"
        "applyCompensation ?c (stockAtCheck productsInfo) (map fst ?rb) (inventory w2) =
           (results, inventory w3)"
        "compensationTrace RollbackFailed (stockAtCheck productsInfo) (map fst ?rb) results = Some evs"
        "trace w3 = trace w2 @ evs" "store w3 = store w2"
    by (elim exE conjE)
  have run: "CreateOrder uc go order0 w = (Inl (ReserveStockFailed productID err), w3)"
    using valid check reserve rb(1) by (simp add: CreateOrder_def)
  have len: "length results = length (succeededUpdates writes)"
    using rb(2) mset_eq_length[OF rbk] by simp
  have st: "store w3 = store w" using rb(6) r(4) ps(6) by simp
  have stock: "\<forall>p \<in> set (succeededUpdates writes). \<exists>product.
              CallGetProduct p (Inr product) \<in> set (readEvents (Items order) ps) \<and>
              stockAtCheck productsInfo p = Some (Stock product)"
  proof
    fix p assume "p \<in> set (succeededUpdates writes)"
    with dec have "p \<in> fst ` set successfullyDecreased" by (simp flip: set_map)
    with sub have "p \<in> fst ` set productsInfo" by blast
    from checkInventory_stockAtCheck[OF ps(1) ps(5) this]
    show "\<exists>product. CallGetProduct p (Inr product) \<in> set (readEvents (Items order) ps) \<and>
              stockAtCheck productsInfo p = Some (Stock product)" .
  qed
  have "CreateOrder uc go order0 w = (Inl (ReserveStockFailed productID err), w3) \<and>
           trace w1 = trace w @ readEvents (Items order) ps \<and> trace w2 = trace w1 @ writes \<and>
           trace w3 = trace w2 @ evs \<and>
           map fst successfullyDecreased = succeededUpdates writes \<and>
           mset (map fst ?rb) = mset (succeededUpdates writes) \<and>
           applyCompensation ?c (stockAtCheck productsInfo) (map fst ?rb) (inventory w2) =
             (results, inventory w3) \<and>
           length results = length (succeededUpdates writes) \<and>
           store w3 = store w \<and>
           compensationTrace RollbackFailed (stockAtCheck productsInfo) (map fst ?rb) results =
             Some evs \<and>
           (\<forall>p \<in> set (succeededUpdates writes). \<exists>product.
              CallGetProduct p (Inr product) \<in> set (readEvents (Items order) ps) \<and>
              stockAtCheck productsInfo p = Some (Stock product))"
    by (intro conjI run ps(2) wr rb(5) dec rbk rb(3) len st rb(4) stock)
  then show ?thesis by (intro exI)
qed

lemma validRangeOrder_insertionOrder: "validRangeOrder insertionOrder"
  by (simp add: validRangeOrder_def insertionOrder_def)

lemma validRangeOrder_reverseOrder: "validRangeOrder reverseOrder"
  by (simp add: validRangeOrder_def reverseOrder_def)

lemma validateOrder_order3:
  "(validateOrder order3 :: string ucError + Order) = Inr (order3\<lparr>Status := StatusPending\<rparr>)"
  by (simp add: validateOrder_Inr_iff order3_def orderOf_def line_def)

theorem CreateOrder_compensates_failed_reservation_witness:
  "validRangeOrder insertionOrder \<and>
   (validateOrder order3 :: string ucError + Order) = Inr (order3\<lparr>Status := StatusPending\<rparr>) \<and>
   (\<exists>productsInfo priced w1 successfullyDecreased w2.
      checkInventory (inventoryClient memUseCase) (Items (order3\<lparr>Status := StatusPending\<rparr>)) []
        worldSecondWriteFails = (Inr (productsInfo, priced), w1) \<and>
      reserveStock (inventoryClient memUseCase) (productsInfoOrder insertionOrder productsInfo) [] w1 =
        (Inl (2, ''unavailable'', successfullyDecreased), w2) \<and>
      (\<exists>reads writes results evs w3.
           CreateOrder memUseCase insertionOrder order3 worldSecondWriteFails =
             (Inl (ReserveStockFailed 2 ''unavailable''), w3) \<and>
           trace w1 = trace worldSecondWriteFails @ reads \<and> trace w2 = trace w1 @ writes \<and>
           trace w3 = trace w2 @ evs \<and>
           map fst successfullyDecreased = succeededUpdates writes \<and>
           mset (map fst (successfullyDecreasedOrder insertionOrder successfullyDecreased)) =
             mset (succeededUpdates writes) \<and>
           applyCompensation (inventoryClient memUseCase) (stockAtCheck productsInfo)
             (map fst (successfullyDecreasedOrder insertionOrder successfullyDecreased))
             (inventory w2) = (results, inventory w3) \<and>
           length results = length (succeededUpdates writes) \<and>
           store w3 = store worldSecondWriteFails \<and>
           compensationTrace RollbackFailed (stockAtCheck productsInfo)
             (map fst (successfullyDecreasedOrder insertionOrder successfullyDecreased)) results =
             Some evs \<and>
           (\<forall>p \<in> set (succeededUpdates writes). \<exists>product.
              CallGetProduct p (Inr product) \<in> set reads \<and>
              stockAtCheck productsInfo p = Some (Stock product)))) \<and>
   CreateOrder memUseCase insertionOrder order3 worldSecondWriteFails =
     (Inl (ReserveStockFailed 2 ''unavailable''),
      \<lparr>inventory =
         \<lparr>products = [(1, \<lparr>ProdID = 1, ProdName = ''P'', ProdPrice = 10, Stock = 5\<rparr>),
                      (2, \<lparr>ProdID = 2, ProdName = ''Q'', ProdPrice = 3, Stock = 8\<rparr>)],
          readFaults = [], writeFaults = []\<rparr>,
       store = store0,
       trace =
         [CallGetProduct 1 (Inr \<lparr>ProdID = 1, ProdName = ''P'', ProdPrice = 10, Stock = 5\<rparr>),
          CallGetProduct 2 (Inr \<lparr>ProdID = 2, ProdName = ''Q'', ProdPrice = 3, Stock = 8\<rparr>),
          CallGetProduct 1 (Inr \<lparr>ProdID = 1, ProdName = ''P'', ProdPrice = 10, Stock = 5\<rparr>),
          CallUpdateStock 1 2 None,
          CallUpdateStock 2 5 (Some ''unavailable''),
          LogError (DecreaseStockFailed 2 ''unavailable''),
          CallUpdateStock 1 5 None]\<rparr>)"
proof -
  have ev: "case checkInventory (inventoryClient memUseCase)
                 (Items (order3\<lparr>Status := StatusPending\<rparr>)) [] worldSecondWriteFails of
          (Inl e, w1) \<Rightarrow> False
        | (Inr (productsInfo, priced), w1) \<Rightarrow>
            (case reserveStock (inventoryClient memUseCase)
                    (productsInfoOrder insertionOrder productsInfo) [] w1 of
               (Inl (p, e, d), w2) \<Rightarrow> p = 2 \<and> e = ''unavailable''
             | (Inr d, w2) \<Rightarrow> False)"
    by code_simp
  obtain r1 w1 where c1:
    "checkInventory (inventoryClient memUseCase) (Items (order3\<lparr>Status := StatusPending\<rparr>)) []
       worldSecondWriteFails = (r1, w1)"
    by (cases "checkInventory (inventoryClient memUseCase)
                 (Items (order3\<lparr>Status := StatusPending\<rparr>)) [] worldSecondWriteFails")
  from ev c1 obtain productsInfo priced where r1: "r1 = Inr (productsInfo, priced)"
    by (cases r1) auto
  obtain r2 w2 where c2:
    "reserveStock (inventoryClient memUseCase) (productsInfoOrder insertionOrder productsInfo) [] w1 =
       (r2, w2)"
    by (cases "reserveStock (inventoryClient memUseCase)
                 (productsInfoOrder insertionOrder productsInfo) [] w1")
  from ev c1 r1 c2 obtain successfullyDecreased where
    r2: "r2 = Inl (2, ''unavailable'', successfullyDecreased)"
    by (cases r2) auto
  note check = c1[unfolded r1] and reserve = c2[unfolded r2]
  note t = CreateOrder_compensates_failed_reservation
             [OF validRangeOrder_insertionOrder validateOrder_order3 check reserve]
  have "checkInventory (inventoryClient memUseCase) (Items (order3\<lparr>Status := StatusPending\<rparr>)) []
        worldSecondWriteFails = (Inr (productsInfo, priced), w1) \<and>
      reserveStock (inventoryClient memUseCase) (productsInfoOrder insertionOrder productsInfo) [] w1 =
        (Inl (2, ''unavailable'', successfullyDecreased), w2) \<and>
      (\<exists>reads writes results evs w3.
           CreateOrder memUseCase insertionOrder order3 worldSecondWriteFails =
             (Inl (ReserveStockFailed 2 ''unavailable''), w3) \<and>
           trace w1 = trace worldSecondWriteFails @ reads \<and> trace w2 = trace w1 @ writes \<and>
           trace w3 = trace w2 @ evs \<and>
           map fst successfullyDecreased = succeededUpdates writes \<and>
           mset (map fst (successfullyDecreasedOrder insertionOrder successfullyDecreased)) =
             mset (succeededUpdates writes) \<and>
           applyCompensation (inventoryClient memUseCase) (stockAtCheck productsInfo)
             (map fst (successfullyDecreasedOrder insertionOrder successfullyDecreased))
             (inventory w2) = (results, inventory w3) \<and>
           length results = length (succeededUpdates writes) \<and>
           store w3 = store worldSecondWriteFails \<and>
           compensationTrace RollbackFailed (stockAtCheck productsInfo)
             (map fst (successfullyDecreasedOrder insertionOrder successfullyDecreased)) results =
             Some evs \<and>
           (\<forall>p \<in> set (succeededUpdates writes). \<exists>product.
              CallGetProduct p (Inr product) \<in> set reads \<and>
              stockAtCheck productsInfo p = Some (Stock product)))"
    by (intro conjI check reserve t)
  then have ex: "\<exists>productsInfo priced w1 successfullyDecreased w2.
      checkInventory (inventoryClient memUseCase) (Items (order3\<lparr>Status := StatusPending\<rparr>)) []
        worldSecondWriteFails = (Inr (productsInfo, priced), w1) \<and>
      reserveStock (inventoryClient memUseCase) (productsInfoOrder insertionOrder productsInfo) [] w1 =
        (Inl (2, ''unavailable'', successfullyDecreased), w2) \<and>
      (\<exists>reads writes results evs w3.
           CreateOrder memUseCase insertionOrder order3 worldSecondWriteFails =
             (Inl (ReserveStockFailed 2 ''unavailable''), w3) \<and>
           trace w1 = trace worldSecondWriteFails @ reads \<and> trace w2 = trace w1 @ writes \<and>
           trace w3 = trace w2 @ evs \<and>
           map fst successfullyDecreased = succeededUpdates writes \<and>
           mset (map fst (successfullyDecreasedOrder insertionOrder successfullyDecreased)) =
             mset (succeededUpdates writes) \<and>
           applyCompensation (inventoryClient memUseCase) (stockAtCheck productsInfo)
             (map fst (successfullyDecreasedOrder insertionOrder successfullyDecreased))
             (inventory w2) = (results, inventory w3) \<and>
           length results = length (succeededUpdates writes) \<and>
           store w3 = store worldSecondWriteFails \<and>
           compensationTrace RollbackFailed (stockAtCheck productsInfo)
             (map fst (successfullyDecreasedOrder insertionOrder successfullyDecreased)) results =
             Some evs \<and>
           (\<forall>p \<in> set (succeededUpdates writes). \<exists>product.
              CallGetProduct p (Inr product) \<in> set reads \<and>
              stockAtCheck productsInfo p = Some (Stock product)))"
    by (intro exI)
  have run: "CreateOrder memUseCase insertionOrder order3 worldSecondWriteFails =
     (Inl (ReserveStockFailed 2 ''unavailable''),
      \<lparr>inventory =
         \<lparr>products = [(1, \<lparr>ProdID = 1, ProdName = ''P'', ProdPrice = 10, Stock = 5\<rparr>),
                      (2, \<lparr>ProdID = 2, ProdName = ''Q'', ProdPrice = 3, Stock = 8\<rparr>)],
          readFaults = [], writeFaults = []\<rparr>,
       store = store0,
       trace =
         [CallGetProduct 1 (Inr \<lparr>ProdID = 1, ProdName = ''P'', ProdPrice = 10, Stock = 5\<rparr>),
          CallGetProduct 2 (Inr \<lparr>ProdID = 2, ProdName = ''Q'', ProdPrice = 3, Stock = 8\<rparr>),
          CallGetProduct 1 (Inr \<lparr>ProdID = 1, ProdName = ''P'', ProdPrice = 10, Stock = 5\<rparr>),
          CallUpdateStock 1 2 None,
          CallUpdateStock 2 5 (Some ''unavailable''),
          LogError (DecreaseStockFailed 2 ''unavailable''),
          CallUpdateStock 1 5 None]\<rparr>)"
    by code_simp
  show ?thesis
    by (intro conjI validRangeOrder_insertionOrder validateOrder_order3 ex run)
qed

text \<open>
  A run in which the restore fails as well: the failure is logged, product 1 stays at the
  reserved stock 2, and the call returns the error of the reservation.
\<close>

lemma CreateOrder_write_faults_run:
  "CreateOrder memUseCase insertionOrder order3 worldWriteFaults =
     (Inl (ReserveStockFailed 2 ''unavailable''),
      \<lparr>inventory =
         \<lparr>products = [(1, \<lparr>ProdID = 1, ProdName = ''P'', ProdPrice = 10, Stock = 2\<rparr>),
                      (2, \<lparr>ProdID = 2, ProdName = ''Q'', ProdPrice = 3, Stock = 8\<rparr>)],
          readFaults = [], writeFaults = []\<rparr>,
       store = store0,
       trace =
         [CallGetProduct 1 (Inr \<lparr>ProdID = 1, ProdName = ''P'', ProdPrice = 10, Stock = 5\<rparr>),
          CallGetProduct 2 (Inr \<lparr>ProdID = 2, ProdName = ''Q'', ProdPrice = 3, Stock = 8\<rparr>),
          CallGetProduct 1 (Inr \<lparr>ProdID = 1, ProdName = ''P'', ProdPrice = 10, Stock = 5\<rparr>),
          CallUpdateStock 1 2 None,
          CallUpdateStock 2 5 (Some ''unavailable''),
          LogError (DecreaseStockFailed 2 ''unavailable''),
          CallUpdateStock 1 5 (Some ''timeout''),
          LogError (RollbackFailed 1 ''timeout'')]\<rparr>)"
  by code_simp

section \<open>The save\<close>

lemma callRepoCreateOrder_world:
  "callRepoCreateOrder r order w = (res, w1) \<Longrightarrow>
     inventory w1 = inventory w \<and> trace w1 = trace w @ [CallRepoCreateOrder order res] \<and>
     repoCreateOrder r order (store w) = (res, store w1)"
  by (auto simp: callRepoCreateOrder_def split: prod.splits)

lemma succeededUpdates_successes:
  "succeededUpdates (map (\<lambda>(p, i). CallUpdateStock p (f p i) None) entries) = map fst entries"
  using succeededUpdates_append_successes[of f entries "[]"] by simp

text \<open>
  The save that returns an error. Take a \<open>CreateOrder\<close> whose order passes validation,
  whose check phase succeeds and whose reservation pass succeeds for every product
  (\<open>writes\<close> its calls, \<open>w2\<close> the world it leaves), and whose save in the order store
  returns the error \<open>err\<close>. Then the products recorded as decreased are the products of
  the order, each with a successful \<open>UpdateStock\<close> in the pass. The inventory the call
  leaves is the one the compensation makes of the inventory of \<open>w2\<close>: for each of these
  products, once, the \<open>UpdateStock\<close> of the client with the stock kept at the check (the
  stock of a product that a \<open>GetProduct\<close> of the check phase returned for it). After the
  failed save and its log line the rest of the trace is these calls, each followed by a
  log line when it fails; and the call returns the error of the save, whatever the
  compensation calls return.
\<close>

lemma CreateOrder_compensates_returned_save_error:
  fixes uc :: "('i, 'r, 'e) orderUseCase"
  assumes go: "validRangeOrder go"
    and valid: "(validateOrder order0 :: 'e ucError + Order) = Inr order"
    and check: "checkInventory (inventoryClient uc) (Items order) [] w =
                  (Inr (productsInfo, priced), w1)"
    and reserve: "reserveStock (inventoryClient uc) (productsInfoOrder go productsInfo) [] w1 =
                  (Inr successfullyDecreased, w2)"
    and save: "repoCreateOrder (orderRepo uc) (order\<lparr>Items := priced\<rparr>) (store w2) = (Inl err, s3)"
  shows "\<exists>reads writes results evs w4.
           CreateOrder uc go order0 w = (Inl (SaveOrderFailed err), w4) \<and>
           trace w1 = trace w @ reads \<and> trace w2 = trace w1 @ writes \<and>
           trace w4 = trace w2 @
             [CallRepoCreateOrder (order\<lparr>Items := priced\<rparr>) (Inl err),
              LogError (SaveOrderFailedAfterInventoryUpdate (UserID order) err)] @ evs \<and>
           map fst successfullyDecreased = succeededUpdates writes \<and>
           set (succeededUpdates writes) = ProductID ` set (Items order0) \<and>
           mset (map fst (successfullyDecreasedOrder go successfullyDecreased)) =
             mset (succeededUpdates writes) \<and>
           applyCompensation (inventoryClient uc) (stockAtCheck productsInfo)
             (map fst (successfullyDecreasedOrder go successfullyDecreased)) (inventory w2) =
             (results, inventory w4) \<and>
           length results = length (succeededUpdates writes) \<and>
           store w4 = s3 \<and>
           compensationTrace RollbackFailedAfterDBError (stockAtCheck productsInfo)
             (map fst (successfullyDecreasedOrder go successfullyDecreased)) results = Some evs \<and>
           (\<forall>p \<in> set (succeededUpdates writes). \<exists>product.
              CallGetProduct p (Inr product) \<in> set reads \<and>
              stockAtCheck productsInfo p = Some (Stock product))"
proof -
  let ?c = "inventoryClient uc"
  let ?ordered = "productsInfoOrder go productsInfo"
  let ?rb = "successfullyDecreasedOrder go successfullyDecreased"
  let ?saved = "order\<lparr>Items := priced\<rparr>"
  from valid have items: "Items order = Items order0"
    by (auto simp: validateOrder_Inr_iff)
  from checkInventory_from_empty[OF check] obtain ps where
    ps: "length ps = length (Items order)" "trace w1 = trace w @ readEvents (Items order) ps"
        "fst ` set productsInfo = ProductID ` set (Items order)"
        "distinct (map fst productsInfo)"
        "\<forall>p i. map_of productsInfo p = Some i \<longrightarrow>
           (\<exists>k < length (Items order). ProductID (Items order ! k) = p \<and> Product i = ps ! k)"
    by (elim exE conjE)
  have keys: "mset (map fst ?ordered) = mset (map fst productsInfo)"
    by (rule validRangeOrder_keys(1)[OF go])
  have dist: "distinct (map fst ?ordered)"
    using ps(4) mset_eq_imp_distinct_iff[OF keys] by simp
  define writes :: "'e event list" where "writes =
      map (\<lambda>(p, i). CallUpdateStock p (wrap64 (Stock (Product i) - OrderQuantity i)) None) ?ordered"
  from reserveStock_trace[OF reserve dist] have
    r: "successfullyDecreased = map (\<lambda>(p, i). (p, OrderQuantity i)) ?ordered"
       "trace w2 = trace w1 @ writes" "store w2 = store w1"
    by (auto simp: writes_def)
  have dec: "map fst successfullyDecreased = succeededUpdates writes"
    unfolding writes_def succeededUpdates_successes r(1)
    by (simp add: case_prod_beta comp_def)
  have all: "set (succeededUpdates writes) = ProductID ` set (Items order0)"
  proof -
    have "set (succeededUpdates writes) = set (map fst ?ordered)"
      unfolding writes_def succeededUpdates_successes ..
    also have "\<dots> = set (map fst productsInfo)" using keys by (rule mset_eq_setD)
    finally show ?thesis using ps(3) items by simp
  qed
  have rbkeys: "mset (map fst ?rb) = mset (map fst successfullyDecreased)"
    by (rule validRangeOrder_keys(2)[OF go])
  have rbk: "mset (map fst ?rb) = mset (succeededUpdates writes)"
    using rbkeys dec by simp
  define w3 where
    "w3 = w2\<lparr>store := s3, trace := trace w2 @ [CallRepoCreateOrder ?saved (Inl err)]\<rparr>"
  have call: "callRepoCreateOrder (orderRepo uc) ?saved w2 = (Inl err, w3)"
    using save by (simp add: callRepoCreateOrder_def w3_def)
  have w3: "trace w3 = trace w2 @ [CallRepoCreateOrder ?saved (Inl err)]"
           "inventory w3 = inventory w2" "store w3 = s3"
    by (simp_all add: w3_def)
  let ?w3 = "logError (SaveOrderFailedAfterInventoryUpdate (UserID order) err) w3"
  have w3': "inventory ?w3 = inventory w2" "store ?w3 = s3"
    using w3 by (simp_all add: logError_def)
  have "\<forall>p \<in> fst ` set ?rb. map_of productsInfo p \<noteq> None"
  proof
    fix p assume "p \<in> fst ` set ?rb"
    then have "p \<in> set (map fst ?rb)" by simp
    then have "p \<in> set (map fst successfullyDecreased)"
      using mset_eq_setD[OF rbkeys] by simp
    with dec all ps(3) items have "p \<in> fst ` set productsInfo" by simp
    then show "map_of productsInfo p \<noteq> None" by (simp add: map_of_eq_None_iff)
  qed
  from rollbackStock_trace[OF this, of ?c RollbackFailedAfterDBError ?w3]
  obtain results evs w4 where
    rb: "rollbackStock ?c RollbackFailedAfterDBError productsInfo ?rb ?w3 = (None, w4)"
        "length results = length ?rb"
        "applyCompensation ?c (stockAtCheck productsInfo) (map fst ?rb) (inventory ?w3) =
           (results, inventory w4)"
        "compensationTrace RollbackFailedAfterDBError (stockAtCheck productsInfo) (map fst ?rb)
           results = Some evs"
        "trace w4 = trace ?w3 @ evs" "store w4 = store ?w3"
    by (elim exE conjE)
  have run: "CreateOrder uc go order0 w = (Inl (SaveOrderFailed err), w4)"
    using valid check reserve call rb(1) by (simp add: CreateOrder_def)
  have tr: "trace w4 = trace w2 @
             [CallRepoCreateOrder ?saved (Inl err),
              LogError (SaveOrderFailedAfterInventoryUpdate (UserID order) err)] @ evs"
    using rb(5) w3(1) by (simp add: logError_def)
  have app: "applyCompensation ?c (stockAtCheck productsInfo) (map fst ?rb) (inventory w2) =
           (results, inventory w4)"
    using rb(3) by (simp only: w3'(1))
  have len: "length results = length (succeededUpdates writes)"
    using rb(2) mset_eq_length[OF rbk] by simp
  have st: "store w4 = s3" using rb(6) by (simp only: w3'(2))
  have stock: "\<forall>p \<in> set (succeededUpdates writes). \<exists>product.
              CallGetProduct p (Inr product) \<in> set (readEvents (Items order) ps) \<and>
              stockAtCheck productsInfo p = Some (Stock product)"
  proof
    fix p assume "p \<in> set (succeededUpdates writes)"
    with all ps(3) items have "p \<in> fst ` set productsInfo" by simp
    from checkInventory_stockAtCheck[OF ps(1) ps(5) this]
    show "\<exists>product. CallGetProduct p (Inr product) \<in> set (readEvents (Items order) ps) \<and>
              stockAtCheck productsInfo p = Some (Stock product)" .
  qed
  have "CreateOrder uc go order0 w = (Inl (SaveOrderFailed err), w4) \<and>
           trace w1 = trace w @ readEvents (Items order) ps \<and> trace w2 = trace w1 @ writes \<and>
           trace w4 = trace w2 @
             [CallRepoCreateOrder ?saved (Inl err),
              LogError (SaveOrderFailedAfterInventoryUpdate (UserID order) err)] @ evs \<and>
           map fst successfullyDecreased = succeededUpdates writes \<and>
           set (succeededUpdates writes) = ProductID ` set (Items order0) \<and>
           mset (map fst ?rb) = mset (succeededUpdates writes) \<and>
           applyCompensation ?c (stockAtCheck productsInfo) (map fst ?rb) (inventory w2) =
             (results, inventory w4) \<and>
           length results = length (succeededUpdates writes) \<and>
           store w4 = s3 \<and>
           compensationTrace RollbackFailedAfterDBError (stockAtCheck productsInfo) (map fst ?rb)
             results = Some evs \<and>
           (\<forall>p \<in> set (succeededUpdates writes). \<exists>product.
              CallGetProduct p (Inr product) \<in> set (readEvents (Items order) ps) \<and>
              stockAtCheck productsInfo p = Some (Stock product))"
    by (intro conjI run ps(2) r(2) tr dec all rbk app len st rb(4) stock)
  then show ?thesis by (intro exI)
qed

text \<open>A run of it: the store is down, both products are restored.\<close>

lemma CreateOrder_store_down_run:
  "CreateOrder memUseCase reverseOrder order3 worldStoreDown =
     (Inl (SaveOrderFailed ''db down''),
      \<lparr>inventory = inventory0,
       store = store0,
       trace =
         [CallGetProduct 1 (Inr \<lparr>ProdID = 1, ProdName = ''P'', ProdPrice = 10, Stock = 5\<rparr>),
          CallGetProduct 2 (Inr \<lparr>ProdID = 2, ProdName = ''Q'', ProdPrice = 3, Stock = 8\<rparr>),
          CallGetProduct 1 (Inr \<lparr>ProdID = 1, ProdName = ''P'', ProdPrice = 10, Stock = 5\<rparr>),
          CallUpdateStock 2 5 None,
          CallUpdateStock 1 2 None,
          CallRepoCreateOrder
            \<lparr>ID = 0, UserID = 7,
             Items = [\<lparr>ProductID = 1, Quantity = 2, Price = 10\<rparr>,
                      \<lparr>ProductID = 2, Quantity = 3, Price = 3\<rparr>,
                      \<lparr>ProductID = 1, Quantity = 1, Price = 10\<rparr>],
             Status = ''pending'', CreatedAt = 0, UpdatedAt = 0\<rparr>
            (Inl ''db down''),
          LogError (SaveOrderFailedAfterInventoryUpdate 7 ''db down''),
          CallUpdateStock 1 5 None,
          CallUpdateStock 2 8 None]\<rparr>)"
  by code_simp

text \<open>
  C3 fails where the save fails at the commit. \<open>postgresOrderRepository.CreateOrder\<close>
  then returns no order and no error, which \<open>commitFailingUseCase\<close> has for a store. For
  the order of two lines of product 1 (quantities 2 and 1) and one line of product 2
  (quantity 3), with stocks 5 and 8: both reservations succeed, the save returns neither
  an order nor an error, and \<open>CreateOrder\<close> makes no compensating \<open>UpdateStock\<close> call: the
  stocks stay at 2 and 5, no order is saved, and the call ends in the nil dereference of
  its last log line, not in the error of the persistence.
\<close>

theorem CreateOrder_failed_commit_keeps_reservations:
  "CreateOrder commitFailingUseCase insertionOrder order3 world0 =
     (Inl NilPointerPanic,
      \<lparr>inventory =
         \<lparr>products = [(1, \<lparr>ProdID = 1, ProdName = ''P'', ProdPrice = 10, Stock = 2\<rparr>),
                      (2, \<lparr>ProdID = 2, ProdName = ''Q'', ProdPrice = 3, Stock = 5\<rparr>)],
          readFaults = [], writeFaults = []\<rparr>,
       store = \<lparr>savedOrders = [], nextOrderID = 1, storeFaults = []\<rparr>,
       trace =
         [CallGetProduct 1 (Inr \<lparr>ProdID = 1, ProdName = ''P'', ProdPrice = 10, Stock = 5\<rparr>),
          CallGetProduct 2 (Inr \<lparr>ProdID = 2, ProdName = ''Q'', ProdPrice = 3, Stock = 8\<rparr>),
          CallGetProduct 1 (Inr \<lparr>ProdID = 1, ProdName = ''P'', ProdPrice = 10, Stock = 5\<rparr>),
          CallUpdateStock 1 2 None,
          CallUpdateStock 2 5 None,
          CallRepoCreateOrder
            \<lparr>ID = 0, UserID = 7,
             Items = [\<lparr>ProductID = 1, Quantity = 2, Price = 10\<rparr>,
                      \<lparr>ProductID = 2, Quantity = 3, Price = 3\<rparr>,
                      \<lparr>ProductID = 1, Quantity = 1, Price = 10\<rparr>],
             Status = ''pending'', CreatedAt = 0, UpdatedAt = 0\<rparr>
            (Inr None)]\<rparr>)"
  by code_simp

section \<open>The prices of a created order\<close>

lemma reserveStock_success_world:
  "reserveStock c entries acc w = (Inr decreased, w1) \<Longrightarrow>
     store w1 = store w \<and>
     (\<exists>rs. trace w1 = trace w @ rs \<and> (\<forall>ev \<in> set rs. isUpdateStock ev))"
proof (induction entries arbitrary: acc w)
  case Nil
  then show ?case by simp
next
  case (Cons entry entries)
  obtain p i where entry: "entry = (p, i)" by (cases entry)
  obtain r w0 where upd: "callUpdateStock c p (wrap64 (Stock (Product i) - OrderQuantity i)) w = (r, w0)"
    by (cases "callUpdateStock c p (wrap64 (Stock (Product i) - OrderQuantity i)) w")
  note u = callUpdateStock_world[OF upd]
  from Cons.prems entry upd have r: "r = None"
    by (cases r) (auto simp: Let_def)
  with Cons.prems entry upd have
    "reserveStock c entries (AList.update p (OrderQuantity i) acc) w0 = (Inr decreased, w1)"
    by (simp add: Let_def)
  from Cons.IH[OF this] u show ?case by auto
qed

lemma stampPrices_nth:
  "length ps = length items \<Longrightarrow> k < length items \<Longrightarrow>
     stampPrices items ps ! k = (items ! k)\<lparr>Price := ProdPrice (ps ! k)\<rparr>"
  by (simp add: stampPrices_def)

lemma readEvents_nth_eq:
  "length ps = length items \<Longrightarrow> k < length items \<Longrightarrow>
     readEvents items ps ! k = CallGetProduct (ProductID (items ! k)) (Inr (ps ! k))"
  by (simp add: readEvents_def)

text \<open>
  C8. When \<open>CreateOrder\<close> returns an order, its trace is: one \<open>GetProduct\<close> for each
  line item, in the order of the items, each of which succeeded (\<open>ps\<close> the products
  returned); the \<open>UpdateStock\<close> calls of the reservation; and one call of the order
  store, which is given the order with, for each line item, the product and the quantity
  of the request and as price the price of the product that the \<open>GetProduct\<close> of that
  item returned, whatever price the request carried.
\<close>

theorem CreateOrder_prices_from_inventory:
  fixes uc :: "('i, 'r, 'e) orderUseCase"
  assumes run: "CreateOrder uc go order0 w = (Inr created, w1)"
  shows "\<exists>ps writes saved.
           length ps = length (Items order0) \<and>
           trace w1 = trace w @ readEvents (Items order0) ps @ writes @
                        [CallRepoCreateOrder saved (Inr (Some created))] \<and>
           (\<forall>ev \<in> set writes. isUpdateStock ev) \<and>
           saved = order0\<lparr>Status := StatusPending, Items := stampPrices (Items order0) ps\<rparr> \<and>
           (\<forall>k < length (Items order0).
              readEvents (Items order0) ps ! k =
                (CallGetProduct (ProductID (Items order0 ! k)) (Inr (ps ! k)) :: 'e event) \<and>
              Items saved ! k = (Items order0 ! k)\<lparr>Price := ProdPrice (ps ! k)\<rparr>)"
proof -
  from run obtain order where valid: "(validateOrder order0 :: 'e ucError + Order) = Inr order"
    by (cases "validateOrder order0 :: 'e ucError + Order") (auto simp: CreateOrder_def)
  then have order: "order = order0\<lparr>Status := StatusPending\<rparr>"
    by (simp add: validateOrder_Inr_iff)
  then have items: "Items order = Items order0" by simp
  obtain r1 wa where c1: "checkInventory (inventoryClient uc) (Items order) [] w = (r1, wa)"
    by (cases "checkInventory (inventoryClient uc) (Items order) [] w")
  from run valid c1 obtain productsInfo priced where r1: "r1 = Inr (productsInfo, priced)"
    by (cases r1) (auto simp: CreateOrder_def)
  obtain r2 wb where
    c2: "reserveStock (inventoryClient uc) (productsInfoOrder go productsInfo) [] wa = (r2, wb)"
    by (cases "reserveStock (inventoryClient uc) (productsInfoOrder go productsInfo) [] wa")
  from run valid c1 r1 c2 obtain decreased where r2: "r2 = Inr decreased"
    by (cases r2) (auto simp: CreateOrder_def split: prod.splits option.splits)
  obtain r3 wc where
    c3: "callRepoCreateOrder (orderRepo uc) (order\<lparr>Items := priced\<rparr>) wb = (r3, wc)"
    by (cases "callRepoCreateOrder (orderRepo uc) (order\<lparr>Items := priced\<rparr>) wb")
  from run valid c1 r1 c2 r2 c3 have r3: "r3 = Inr (Some created)" and w1: "w1 = wc"
    by (auto simp: CreateOrder_def split: prod.splits option.splits sum.splits)
  from checkInventory_from_empty[OF c1[unfolded r1]] obtain ps where
    ps: "length ps = length (Items order)" "trace wa = trace w @ readEvents (Items order) ps"
        "priced = stampPrices (Items order) ps"
    by (elim exE conjE)
  from reserveStock_success_world[OF c2[unfolded r2]] obtain writes where
    ws: "trace wb = trace wa @ writes" "\<forall>ev \<in> set writes. isUpdateStock ev"
    by blast
  let ?saved = "order0\<lparr>Status := StatusPending, Items := stampPrices (Items order0) ps\<rparr>"
  have saved: "order\<lparr>Items := priced\<rparr> = ?saved"
    using order ps(3) by simp
  have tr: "trace w1 = trace w @ readEvents (Items order0) ps @ writes @
              [CallRepoCreateOrder ?saved (Inr (Some created))]"
    using callRepoCreateOrder_world[OF c3] ps(2) ws(1) r3 w1 saved items by simp
  have nth: "\<forall>k < length (Items order0).
              readEvents (Items order0) ps ! k =
                (CallGetProduct (ProductID (Items order0 ! k)) (Inr (ps ! k)) :: 'e event) \<and>
              Items ?saved ! k = (Items order0 ! k)\<lparr>Price := ProdPrice (ps ! k)\<rparr>"
    using ps(1) items by (simp add: stampPrices_nth readEvents_nth_eq)
  have len: "length ps = length (Items order0)" using ps(1) items by simp
  have "length ps = length (Items order0) \<and>
        trace w1 = trace w @ readEvents (Items order0) ps @ writes @
                     [CallRepoCreateOrder ?saved (Inr (Some created))] \<and>
        (\<forall>ev \<in> set writes. isUpdateStock ev) \<and>
        ?saved = order0\<lparr>Status := StatusPending, Items := stampPrices (Items order0) ps\<rparr> \<and>
        (\<forall>k < length (Items order0).
           readEvents (Items order0) ps ! k =
             (CallGetProduct (ProductID (Items order0 ! k)) (Inr (ps ! k)) :: 'e event) \<and>
           Items ?saved ! k = (Items order0 ! k)\<lparr>Price := ProdPrice (ps ! k)\<rparr>)"
    by (intro conjI len tr ws(2) refl nth)
  then show ?thesis
    by (intro exI)
qed

lemma CreateOrder_order3_run:
  "CreateOrder memUseCase insertionOrder order3 world0 = (Inr created3, world3)"
  by code_simp

theorem CreateOrder_prices_from_inventory_witness:
  "CreateOrder memUseCase insertionOrder order3 world0 = (Inr created3, world3) \<and>
   map Price (Items order3) = [0, 0, 0] \<and>
   map Price (Items created3) = [10, 3, 10] \<and>
   (\<exists>ps writes saved.
           length ps = length (Items order3) \<and>
           trace world3 = trace world0 @ readEvents (Items order3) ps @ writes @
                        [CallRepoCreateOrder saved (Inr (Some created3))] \<and>
           (\<forall>ev \<in> set writes. isUpdateStock ev) \<and>
           saved = order3\<lparr>Status := StatusPending, Items := stampPrices (Items order3) ps\<rparr> \<and>
           (\<forall>k < length (Items order3).
              readEvents (Items order3) ps ! k =
                (CallGetProduct (ProductID (Items order3 ! k)) (Inr (ps ! k)) :: string event) \<and>
              Items saved ! k = (Items order3 ! k)\<lparr>Price := ProdPrice (ps ! k)\<rparr>))"
proof (intro conjI)
  show "CreateOrder memUseCase insertionOrder order3 world0 = (Inr created3, world3)"
    by (rule CreateOrder_order3_run)
  show "map Price (Items order3) = [0, 0, 0]"
    by (simp add: order3_def orderOf_def line_def)
  show "map Price (Items created3) = [10, 3, 10]"
    by (simp add: created3_def)
  show "\<exists>ps writes saved.
           length ps = length (Items order3) \<and>
           trace world3 = trace world0 @ readEvents (Items order3) ps @ writes @
                        [CallRepoCreateOrder saved (Inr (Some created3))] \<and>
           (\<forall>ev \<in> set writes. isUpdateStock ev) \<and>
           saved = order3\<lparr>Status := StatusPending, Items := stampPrices (Items order3) ps\<rparr> \<and>
           (\<forall>k < length (Items order3).
              readEvents (Items order3) ps ! k =
                (CallGetProduct (ProductID (Items order3 ! k)) (Inr (ps ! k)) :: string event) \<and>
              Items saved ! k = (Items order3 ! k)\<lparr>Price := ProdPrice (ps ! k)\<rparr>)"
    by (rule CreateOrder_prices_from_inventory[OF CreateOrder_order3_run])
qed

section \<open>UpdateOrderStatus\<close>

lemma callRepoGetOrderByID_eq:
  "repoGetOrderByID r orderID (store w) = (res, s1) \<Longrightarrow>
     callRepoGetOrderByID r orderID w =
       (res, w\<lparr>store := s1, trace := trace w @ [CallRepoGetOrderByID orderID res]\<rparr>)"
  by (simp add: callRepoGetOrderByID_def)

lemma callRepoUpdateOrderStatus_eq:
  "repoUpdateOrderStatus r orderID status (store w) = (res, s1) \<Longrightarrow>
     callRepoUpdateOrderStatus r orderID status w =
       (res, w\<lparr>store := s1, trace := trace w @ [CallRepoUpdateOrderStatus orderID status res]\<rparr>)"
  by (simp add: callRepoUpdateOrderStatus_def)

lemma IsValidStatus_iff:
  "IsValidStatus s = (s = StatusPending \<or> s = StatusCompleted \<or> s = StatusCancelled)"
  by (simp add: IsValidStatus_def)

lemma status_distinct:
  "StatusPending \<noteq> StatusCompleted" "StatusPending \<noteq> StatusCancelled"
  "StatusCompleted \<noteq> StatusCancelled" "StatusCompleted \<noteq> StatusPending"
  "StatusCancelled \<noteq> StatusPending" "StatusCancelled \<noteq> StatusCompleted"
  by (simp_all add: StatusPending_def StatusCompleted_def StatusCancelled_def)


text \<open>
  C6. When the order store returns for \<open>orderID\<close> an order whose status is completed,
  \<open>UpdateOrderStatus\<close> with target cancelled returns an invalid-transition error; the
  only call it has made is the read of the order: no call to the inventory, and the
  inventory is as it was.
\<close>

theorem UpdateOrderStatus_cancel_completed:
  assumes "0 < orderID"
    and "repoGetOrderByID (orderRepo uc) orderID (store w) = (Inr currentOrder, s1)"
    and "Status currentOrder = StatusCompleted"
  shows "\<exists>e w1. UpdateOrderStatus uc orderID StatusCancelled w = (Inl e, w1) \<and>
           InvalidTransitionError e \<and> inventory w1 = inventory w \<and>
           trace w1 = trace w @ [CallRepoGetOrderByID orderID (Inr currentOrder)]"
  using assms
  by (simp add: UpdateOrderStatus_def IsValidStatus_iff callRepoGetOrderByID_eq)

theorem UpdateOrderStatus_cancel_completed_witness:
  "(0::int) < 1 \<and>
   repoGetOrderByID (orderRepo memUseCase) 1 (store (worldWith StatusCompleted)) =
     (Inr (created3\<lparr>Status := StatusCompleted\<rparr>), storeWith StatusCompleted) \<and>
   Status (created3\<lparr>Status := StatusCompleted\<rparr>) = StatusCompleted \<and>
   (\<exists>e w1. UpdateOrderStatus memUseCase 1 StatusCancelled (worldWith StatusCompleted) = (Inl e, w1) \<and>
           InvalidTransitionError e \<and> inventory w1 = inventory (worldWith StatusCompleted) \<and>
           trace w1 = trace (worldWith StatusCompleted) @
             [CallRepoGetOrderByID 1 (Inr (created3\<lparr>Status := StatusCompleted\<rparr>))])"
proof -
  have get: "repoGetOrderByID (orderRepo memUseCase) 1 (store (worldWith StatusCompleted)) =
     (Inr (created3\<lparr>Status := StatusCompleted\<rparr>), storeWith StatusCompleted)"
    by (simp add: memUseCase_def memOrderRepository_def memGetOrderByID_def worldWith_def
          storeWith_def created3_def)
  have st: "Status (created3\<lparr>Status := StatusCompleted\<rparr>) = StatusCompleted" by simp
  have pos: "(0::int) < 1" by simp
  from UpdateOrderStatus_cancel_completed[OF pos get st] pos get st
  show ?thesis by (intro conjI)
qed

lemma memUpdateOrderStatus_returnsStatusWritten:
  "returnsStatusWritten (orderRepo memUseCase)"
  by (auto simp: returnsStatusWritten_def memUseCase_def memOrderRepository_def
        memUpdateOrderStatus_def split: list.splits option.splits)

lemma memGetOrderByID_worldWith:
  "repoGetOrderByID (orderRepo memUseCase) 1 (store (worldWith status)) =
     (Inr (created3\<lparr>Status := status\<rparr>), storeWith status)"
  by (simp add: memUseCase_def memOrderRepository_def memGetOrderByID_def worldWith_def
        storeWith_def created3_def)

lemma memUpdateOrderStatus_storeWith:
  "repoUpdateOrderStatus (orderRepo memUseCase) 1 status' (storeWith status) =
     (Inr (created3\<lparr>Status := status'\<rparr>), storeWith status')"
  by (simp add: memUseCase_def memOrderRepository_def memUpdateOrderStatus_def
        storeWith_def created3_def)

lemma returnsStatusWrittenD:
  "returnsStatusWritten r \<Longrightarrow> repoUpdateOrderStatus r orderID status s = (Inr updated, s1) \<Longrightarrow>
     Status updated = status"
  unfolding returnsStatusWritten_def by blast

text \<open>
  C10. When the order store returns for \<open>orderID\<close> an order whose status is cancelled,
  \<open>UpdateOrderStatus\<close> with target cancelled passes the two guards and skips the restock:
  after the read of the order its only call is the status update of the order store, the
  inventory is as it was, and the result is the result of that update: the order the
  store returns, whose status is cancelled for a store that returns the status it wrote,
  or the error of the store, which is not an invalid-transition error.
\<close>

theorem UpdateOrderStatus_cancel_cancelled:
  fixes uc :: "('i, 'r, 'e) orderUseCase"
  assumes pos: "0 < orderID"
    and get: "repoGetOrderByID (orderRepo uc) orderID (store w) = (Inr currentOrder, s1)"
    and cur: "Status currentOrder = StatusCancelled"
    and upd: "repoUpdateOrderStatus (orderRepo uc) orderID StatusCancelled s1 = (r, s2)"
    and contract: "returnsStatusWritten (orderRepo uc)"
  shows "\<exists>res logs w1.
           UpdateOrderStatus uc orderID StatusCancelled w = (res, w1) \<and>
           inventory w1 = inventory w \<and>
           trace w1 = trace w @
             [CallRepoGetOrderByID orderID (Inr currentOrder),
              CallRepoUpdateOrderStatus orderID StatusCancelled r] @ logs \<and>
           (case r of
              Inr updated \<Rightarrow> res = Inr updated \<and> Status updated = StatusCancelled \<and> logs = []
            | Inl err \<Rightarrow> res = Inl (RepositoryError err) \<and>
                         \<not> InvalidTransitionError (RepositoryError err :: 'e ucError) \<and>
                         logs = [LogError (UpdateStatusFailed orderID err)])"
proof -
  let ?w1 = "w\<lparr>store := s1, trace := trace w @ [CallRepoGetOrderByID orderID (Inr currentOrder)]\<rparr>"
  have g: "callRepoGetOrderByID (orderRepo uc) orderID w = (Inr currentOrder, ?w1)"
    by (rule callRepoGetOrderByID_eq[OF get])
  let ?w2 = "?w1\<lparr>store := s2,
               trace := trace ?w1 @ [CallRepoUpdateOrderStatus orderID StatusCancelled r]\<rparr>"
  have u: "callRepoUpdateOrderStatus (orderRepo uc) orderID StatusCancelled ?w1 = (r, ?w2)"
    by (rule callRepoUpdateOrderStatus_eq) (simp add: upd)
  show ?thesis
  proof (cases r)
    case (Inr updated)
    from upd Inr have "repoUpdateOrderStatus (orderRepo uc) orderID StatusCancelled s1 =
        (Inr updated, s2)" by simp
    from returnsStatusWrittenD[OF contract this] have st: "Status updated = StatusCancelled" .
    have "UpdateOrderStatus uc orderID StatusCancelled w = (Inr updated, ?w2)"
      using pos cur g u Inr
      by (simp add: UpdateOrderStatus_def IsValidStatus_iff status_distinct)
    with st Inr show ?thesis by simp
  next
    case (Inl err)
    have "UpdateOrderStatus uc orderID StatusCancelled w =
            (Inl (RepositoryError err), logError (UpdateStatusFailed orderID err) ?w2)"
      using pos cur g u Inl
      by (simp add: UpdateOrderStatus_def IsValidStatus_iff status_distinct)
    with Inl show ?thesis by (simp add: logError_def)
  qed
qed

theorem UpdateOrderStatus_cancel_cancelled_witness:
  "(0::int) < 1 \<and>
   repoGetOrderByID (orderRepo memUseCase) 1 (store (worldWith StatusCancelled)) =
     (Inr (created3\<lparr>Status := StatusCancelled\<rparr>), storeWith StatusCancelled) \<and>
   Status (created3\<lparr>Status := StatusCancelled\<rparr>) = StatusCancelled \<and>
   repoUpdateOrderStatus (orderRepo memUseCase) 1 StatusCancelled (storeWith StatusCancelled) =
     (Inr (created3\<lparr>Status := StatusCancelled\<rparr>), storeWith StatusCancelled) \<and>
   returnsStatusWritten (orderRepo memUseCase) \<and>
   (\<exists>res logs w1.
           UpdateOrderStatus memUseCase 1 StatusCancelled (worldWith StatusCancelled) = (res, w1) \<and>
           inventory w1 = inventory (worldWith StatusCancelled) \<and>
           trace w1 = trace (worldWith StatusCancelled) @
             [CallRepoGetOrderByID 1 (Inr (created3\<lparr>Status := StatusCancelled\<rparr>)),
              CallRepoUpdateOrderStatus 1 StatusCancelled
                (Inr (created3\<lparr>Status := StatusCancelled\<rparr>))] @ logs \<and>
           res = Inr (created3\<lparr>Status := StatusCancelled\<rparr>) \<and> logs = [])"
proof -
  have pos: "(0::int) < 1" by simp
  have st: "Status (created3\<lparr>Status := StatusCancelled\<rparr>) = StatusCancelled" by simp
  note get = memGetOrderByID_worldWith[of StatusCancelled]
  note upd = memUpdateOrderStatus_storeWith[of StatusCancelled StatusCancelled]
  note c = memUpdateOrderStatus_returnsStatusWritten
  from UpdateOrderStatus_cancel_cancelled[OF pos get st upd c]
  obtain res logs w1 where
    "UpdateOrderStatus memUseCase 1 StatusCancelled (worldWith StatusCancelled) = (res, w1)"
    "inventory w1 = inventory (worldWith StatusCancelled)"
    "trace w1 = trace (worldWith StatusCancelled) @
             [CallRepoGetOrderByID 1 (Inr (created3\<lparr>Status := StatusCancelled\<rparr>)),
              CallRepoUpdateOrderStatus 1 StatusCancelled
                (Inr (created3\<lparr>Status := StatusCancelled\<rparr>))] @ logs"
    "res = Inr (created3\<lparr>Status := StatusCancelled\<rparr>)" "logs = []"
    by auto
  with pos get st upd c show ?thesis by (intro conjI exI)
qed

text \<open>The run of the witness, in full.\<close>

lemma UpdateOrderStatus_cancel_cancelled_run:
  "UpdateOrderStatus memUseCase 1 StatusCancelled (worldWith StatusCancelled) =
     (Inr (created3\<lparr>Status := StatusCancelled\<rparr>),
      (worldWith StatusCancelled)\<lparr>trace :=
        [CallRepoGetOrderByID 1 (Inr (created3\<lparr>Status := StatusCancelled\<rparr>)),
         CallRepoUpdateOrderStatus 1 StatusCancelled
           (Inr (created3\<lparr>Status := StatusCancelled\<rparr>))]\<rparr>)"
  by code_simp



text \<open>
  A cancellation in which the read of the first item and the write of the second fail:
  both are logged, the third item is restocked and the order is cancelled.
\<close>

lemma UpdateOrderStatus_restock_faults_run:
  "UpdateOrderStatus memUseCase 1 StatusCancelled worldRestockFaults =
     (Inr (created3\<lparr>Status := StatusCancelled\<rparr>),
      \<lparr>inventory =
         \<lparr>products = [(1, \<lparr>ProdID = 1, ProdName = ''P'', ProdPrice = 10, Stock = 6\<rparr>),
                      (2, \<lparr>ProdID = 2, ProdName = ''Q'', ProdPrice = 3, Stock = 8\<rparr>)],
          readFaults = [], writeFaults = []\<rparr>,
       store = storeWith StatusCancelled,
       trace =
         [CallRepoGetOrderByID 1 (Inr (created3\<lparr>Status := StatusPending\<rparr>)),
          CallGetProduct 1 (Inl ''timeout''),
          LogError (ReturnStockLookupFailed 1 1 ''timeout''),
          CallGetProduct 2 (Inr \<lparr>ProdID = 2, ProdName = ''Q'', ProdPrice = 3, Stock = 8\<rparr>),
          CallUpdateStock 2 11 (Some ''unavailable''),
          LogError (ReturnStockFailed 2 3 1 ''unavailable''),
          CallGetProduct 1 (Inr \<lparr>ProdID = 1, ProdName = ''P'', ProdPrice = 10, Stock = 5\<rparr>),
          CallUpdateStock 1 6 None,
          CallRepoUpdateOrderStatus 1 StatusCancelled
            (Inr (created3\<lparr>Status := StatusCancelled\<rparr>))]\<rparr>)"
  by code_simp



section \<open>The transitions UpdateOrderStatus refuses\<close>





text \<open>A cancelled order set back to pending: refused after the read of the order.\<close>

lemma UpdateOrderStatus_cancelled_to_pending_run:
  "UpdateOrderStatus memUseCase 1 StatusPending (worldWith StatusCancelled) =
     (Inl CannotChangeCancelled,
      (worldWith StatusCancelled)\<lparr>trace :=
         [CallRepoGetOrderByID 1 (Inr (created3\<lparr>Status := StatusCancelled\<rparr>))]\<rparr>)"
  by code_simp

section \<open>ListOrders\<close>

text \<open>
  What \<open>postgresOrderRepository.ListOrdersByUserID\<close> makes of the limit and of the
  offset before the query: a limit that is not positive, and a limit above 100, become
  10; a negative offset becomes 0.
\<close>

lemma pgListOrdersByUserID_limit_out_of_range:
  "limit0 \<le> 0 \<or> 100 < limit0 \<Longrightarrow>
     pgListOrdersByUserID userID limit0 offset0 d = pgListOrdersByUserID userID 10 offset0 d"
  by (simp add: pgListOrdersByUserID_def)

lemma pgListOrdersByUserID_negative_offset:
  "offset0 < 0 \<Longrightarrow>
     pgListOrdersByUserID userID limit0 offset0 d = pgListOrdersByUserID userID limit0 0 d"
  by (simp add: pgListOrdersByUserID_def)

text \<open>When no order matches, a database that answers returns the empty list, no error.\<close>

lemma pgListOrdersByUserID_none_match:
  assumes "faults d = []" and "\<forall>row \<in> set (ordersTable d). UserID row \<noteq> userID"
  shows "pgListOrdersByUserID userID limit0 offset0 d = (Inr [], d)"
proof -
  have "filter (\<lambda>row. UserID row = userID) (ordersTable d) = []"
    using assms(2) by (simp add: filter_empty_conv)
  then have "ordersQuery d userID n m = []" for n m
    by (simp add: ordersQuery_def)
  then show ?thesis
    using assms(1) by (simp add: pgListOrdersByUserID_def nextFault_def Let_def)
qed

text \<open>The gRPC handler hands the limit and the offset of the request over as they are.\<close>

lemma grpcListOrders_passes_limit:
  "0 < reqUserId req \<Longrightarrow>
     grpcListOrders uc req w =
       (case ListOrdersByUserID uc (reqUserId req) (reqLimit req) (reqOffset req) w of
          (Inl err, w1) \<Rightarrow> (Inl (DomainError err), w1)
        | (Inr orders, w1) \<Rightarrow> (Inr orders, w1))"
  by (simp add: grpcListOrders_def Let_def)

text \<open>
  C7 fails for a limit above 100 on the gRPC path. With eleven orders of user 1 in the
  database, \<open>ListOrders\<close> with limit 101 returns the ten newest: the handler and the use
  case pass 101 on, and the repository makes 10 of it, where the claim has the limit
  clamped to 100, which returns the eleven orders, as the same call with limit 100 does.
\<close>

theorem ListOrders_limit_above_100_becomes_10:
  "grpcListOrders
     \<lparr>orderRepo =
        \<lparr>repoCreateOrder = create, repoGetOrderByID = get, repoUpdateOrderStatus = update,
         repoListOrdersByUserID = pgListOrdersByUserID\<rparr>,
      inventoryClient = client\<rparr>
     \<lparr>reqUserId = 1, reqLimit = 101, reqOffset = 0\<rparr> worldEleven =
     (Inr (listedOrders [11, 10, 9, 8, 7, 6, 5, 4, 3, 2]),
      worldEleven\<lparr>trace :=
        [CallRepoListOrdersByUserID 1 101 0
           (Inr (listedOrders [11, 10, 9, 8, 7, 6, 5, 4, 3, 2]))]\<rparr>) \<and>
   grpcListOrders
     \<lparr>orderRepo =
        \<lparr>repoCreateOrder = create, repoGetOrderByID = get, repoUpdateOrderStatus = update,
         repoListOrdersByUserID = pgListOrdersByUserID\<rparr>,
      inventoryClient = client\<rparr>
     \<lparr>reqUserId = 1, reqLimit = 100, reqOffset = 0\<rparr> worldEleven =
     (Inr (listedOrders [11, 10, 9, 8, 7, 6, 5, 4, 3, 2, 1]),
      worldEleven\<lparr>trace :=
        [CallRepoListOrdersByUserID 1 100 0
           (Inr (listedOrders [11, 10, 9, 8, 7, 6, 5, 4, 3, 2, 1]))]\<rparr>)"
proof (intro conjI)
  show "grpcListOrders
     \<lparr>orderRepo =
        \<lparr>repoCreateOrder = create, repoGetOrderByID = get, repoUpdateOrderStatus = update,
         repoListOrdersByUserID = pgListOrdersByUserID\<rparr>,
      inventoryClient = client\<rparr>
     \<lparr>reqUserId = 1, reqLimit = 101, reqOffset = 0\<rparr> worldEleven =
     (Inr (listedOrders [11, 10, 9, 8, 7, 6, 5, 4, 3, 2]),
      worldEleven\<lparr>trace :=
        [CallRepoListOrdersByUserID 1 101 0
           (Inr (listedOrders [11, 10, 9, 8, 7, 6, 5, 4, 3, 2]))]\<rparr>)"
    by code_simp
  show "grpcListOrders
     \<lparr>orderRepo =
        \<lparr>repoCreateOrder = create, repoGetOrderByID = get, repoUpdateOrderStatus = update,
         repoListOrdersByUserID = pgListOrdersByUserID\<rparr>,
      inventoryClient = client\<rparr>
     \<lparr>reqUserId = 1, reqLimit = 100, reqOffset = 0\<rparr> worldEleven =
     (Inr (listedOrders [11, 10, 9, 8, 7, 6, 5, 4, 3, 2, 1]),
      worldEleven\<lparr>trace :=
        [CallRepoListOrdersByUserID 1 100 0
           (Inr (listedOrders [11, 10, 9, 8, 7, 6, 5, 4, 3, 2, 1]))]\<rparr>)"
    by code_simp
qed

text \<open>
  The HTTP handler clamps before it calls the use case: the same request there is a
  query for 100 orders and returns the eleven.
\<close>

lemma httpListOrders_limit_above_100_run:
  "httpListOrders
     \<lparr>orderRepo =
        \<lparr>repoCreateOrder = create, repoGetOrderByID = get, repoUpdateOrderStatus = update,
         repoListOrdersByUserID = pgListOrdersByUserID\<rparr>,
      inventoryClient = client\<rparr>
     \<lparr>headerXUserID = ''1'', queryLimit = Some ''101'', queryOffset = None\<rparr> worldEleven =
     (OK (listedOrders [11, 10, 9, 8, 7, 6, 5, 4, 3, 2, 1]),
      worldEleven\<lparr>trace :=
        [CallRepoListOrdersByUserID 1 100 0
           (Inr (listedOrders [11, 10, 9, 8, 7, 6, 5, 4, 3, 2, 1]))]\<rparr>)"
  by code_simp

end
